theory Spec2Isabelle
  imports Complex_Main "HOL-Library.Multiset"
begin

section \<open>Python values\<close>

text \<open>
  An exception is held as its class and the text \<open>str(e)\<close> gives for it. A function of
  the program that can raise returns \<open>py_error + 'a\<close>, with \<open>Inl\<close> for the exception.
  \<open>ClientError\<close> stands for whatever a client library (a chat, embedding or image call)
  raises; \<open>Exception\<close> is the plain \<open>raise Exception(...)\<close> of the program.
\<close>

datatype exc_class =
    JSONDecodeError | TypeError | AttributeError | KeyError | ValueError
  | FileNotFoundError | Exception | ClientError

datatype py_error = PyErr exc_class string

fun str_of_error :: "py_error \<Rightarrow> string" where
  "str_of_error (PyErr c m) = m"

text \<open>
  Text is a list of bytes in UTF-8. Python's \<open>len\<close> and slices count code points: a
  code point starts at every byte that is not a continuation byte (\<open>0x80\<close> to \<open>0xBF\<close>).
\<close>

definition is_continuation :: "char \<Rightarrow> bool" where
  "is_continuation c = (128 \<le> (of_char c :: nat) \<and> (of_char c :: nat) < 192)"

definition py_len :: "string \<Rightarrow> nat" where
  "py_len s = length (filter (\<lambda>c. \<not> is_continuation c) s)"

fun py_take :: "nat \<Rightarrow> string \<Rightarrow> string" where
  "py_take n [] = []"
| "py_take n (c # cs) =
     (if is_continuation c then c # py_take n cs
      else (case n of 0 \<Rightarrow> [] | Suc k \<Rightarrow> c # py_take k cs))"

section \<open>utils.py: audit log, analytics, notifications\<close>

record log_entry =
  entry_timestamp :: string
  entry_user_message :: string
  entry_assistant_response :: string
  entry_tools_used :: "string list"
  entry_model :: string
  entry_response_time_ms :: real
  entry_error :: "string option"

record analytics =
  total_queries :: nat
  tool_calls :: "string \<rightharpoonup> nat"
  model_usage :: "string \<rightharpoonup> nat"
  errors :: nat
  avg_response_time :: real
  response_times :: "real list"

record notification =
  n_timestamp :: string
  n_title :: string
  n_message :: "string option"
  n_level :: string

text \<open>
  The module state of utils.py. \<open>notifications\<close> is the sink of \<open>send_notification\<close>:
  the notifications it has built, printed and handed to the callbacks, oldest first.
  A callback is a function outside the program; \<open>True\<close> says that it returned,
  \<open>False\<close> that it raised.
\<close>

record utils_state =
  audit_logs :: "log_entry list"
  analytics_data :: analytics
  notification_callbacks :: "(notification \<Rightarrow> bool) list"
  notifications :: "notification list"

definition analytics_init :: analytics where
  "analytics_init = \<lparr>total_queries = 0, tool_calls = Map.empty, model_usage = Map.empty,
     errors = 0, avg_response_time = 0, response_times = []\<rparr>"

definition utils_init :: utils_state where
  "utils_init = \<lparr>audit_logs = [], analytics_data = analytics_init,
     notification_callbacks = [], notifications = []\<rparr>"

text \<open>
  \<open>round(x, 2)\<close> on the reals: to the nearest multiple of 1/100, a tie to the even one.
  Times are real numbers here; the program holds them as binary floating point.
\<close>

definition py_round2 :: "real \<Rightarrow> real" where
  "py_round2 x =
     (let y = x * 100; f = \<lfloor>y\<rfloor>; d = y - of_int f
      in of_int (if d < 1/2 then f else if 1/2 < d then f + 1
                 else if even f then f else f + 1) / 100)"

text \<open>\<open>d[k] = d.get(k, 0) + 1\<close>\<close>

definition bump :: "(string \<rightharpoonup> nat) \<Rightarrow> string \<Rightarrow> (string \<rightharpoonup> nat)" where
  "bump d k = d(k \<mapsto> (case d k of None \<Rightarrow> 0 | Some c \<Rightarrow> c) + 1)"

fun bump_all :: "(string \<rightharpoonup> nat) \<Rightarrow> string list \<Rightarrow> (string \<rightharpoonup> nat)" where
  "bump_all d [] = d"
| "bump_all d (t # ts) = bump_all (bump d t) ts"

text \<open>Truthiness of an optional text: \<open>None\<close> and the empty text are false.\<close>

fun truthy :: "string option \<Rightarrow> bool" where
  "truthy None = False"
| "truthy (Some s) = (s \<noteq> [])"

definition default_model :: string where
  "default_model = ''gpt-4o-mini''"

text \<open>
  \<open>log_interaction\<close>. The defaults of the signature are passed by the caller:
  \<open>tools_used = None\<close>, \<open>model = default_model\<close>, \<open>response_time = 0\<close>,
  \<open>error = None\<close>. \<open>now\<close> is what \<open>datetime.now().isoformat()\<close> gives.
  Returns the entry and the new state.
\<close>

definition log_interaction ::
  "string \<Rightarrow> string \<Rightarrow> string \<Rightarrow> string list option \<Rightarrow> string \<Rightarrow> real \<Rightarrow> string option
     \<Rightarrow> utils_state \<Rightarrow> log_entry \<times> utils_state" where
  "log_interaction now user_message assistant_response tools_used model response_time error st =
     (let tools = (case tools_used of None \<Rightarrow> [] | Some ts \<Rightarrow> ts);
          log_entry =
            \<lparr>entry_timestamp = now,
             entry_user_message = user_message,
             entry_assistant_response =
               (if 500 < py_len assistant_response
                then py_take 500 assistant_response @ ''...'' else assistant_response),
             entry_tools_used = tools,
             entry_model = model,
             entry_response_time_ms = py_round2 (response_time * 1000),
             entry_error = error\<rparr>;
          a = analytics_data st;
          times = response_times a @ [response_time];
          a1 = a\<lparr>total_queries := total_queries a + 1,
                 response_times := times,
                 avg_response_time := sum_list times / real (length times)\<rparr>;
          a2 = a1\<lparr>model_usage := bump (model_usage a1) model\<rparr>;
          a3 = a2\<lparr>tool_calls := bump_all (tool_calls a2) tools\<rparr>;
          a4 = (if truthy error then a3\<lparr>errors := errors a3 + 1\<rparr> else a3)
      in (log_entry, st\<lparr>audit_logs := audit_logs st @ [log_entry], analytics_data := a4\<rparr>))"

text \<open>
  \<open>send_notification\<close>: every callback is called with the notification, and one that
  raises is passed over. The callbacks change nothing in this state.
\<close>

definition send_notification ::
  "string \<Rightarrow> string \<Rightarrow> string option \<Rightarrow> string \<Rightarrow> utils_state \<Rightarrow> utils_state" where
  "send_notification now ttl msg lvl st =
     (let n = \<lparr>n_timestamp = now, n_title = ttl, n_message = msg, n_level = lvl\<rparr>;
          delivered = map (\<lambda>callback. callback n) (notification_callbacks st)
      in st\<lparr>notifications := notifications st @ [n]\<rparr>)"

section \<open>Floating point\<close>

text \<open>
  A float64 value: nan, an infinity, or a finite float, held as the real number it is.
  The comparisons of floats are exact and are defined here: \<open>float_lt\<close> is \<open><\<close> and
  \<open>float_ge\<close> is \<open>>=\<close>, both false when an operand is nan. The arithmetic of floats
  rounds and is not computed here: the numpy operations that \<open>cosine_similarity\<close> calls
  and the division and product of floats are parameters of the model, in \<open>numerics\<close>.
\<close>

datatype float64 = NaN | NegInf | Finite real | PosInf

fun float_lt :: "float64 \<Rightarrow> float64 \<Rightarrow> bool" where
  "float_lt NaN y = False"
| "float_lt x NaN = False"
| "float_lt PosInf y = False"
| "float_lt x NegInf = False"
| "float_lt NegInf y = True"
| "float_lt x PosInf = True"
| "float_lt (Finite a) (Finite b) = (a < b)"

definition float_ge :: "float64 \<Rightarrow> float64 \<Rightarrow> bool" where
  "float_ge x y = (x \<noteq> NaN \<and> y \<noteq> NaN \<and> \<not> float_lt x y)"

text \<open>The literal \<open>0.3\<close>: the float64 nearest to 3/10.\<close>

definition relevance_threshold :: float64 where
  "relevance_threshold = Finite (5404319552844595 / 18014398509481984)"

section \<open>knowledge_base.py: the retrieval engine\<close>

text \<open>
  A document of the knowledge base; \<open>embedding = None\<close> is a document without the key
  \<open>'embedding'\<close>.
\<close>

record document =
  doc_id :: string
  category :: string
  title :: string
  content :: string
  embedding :: "float64 list option"

text \<open>
  The numeric library under \<open>search_knowledge_base\<close>. \<open>np_dot\<close> is \<open>np.dot\<close> on two
  vectors, which raises (a ValueError on vectors of different lengths); \<open>np_norm\<close> is
  \<open>np.linalg.norm\<close>; \<open>float_mul\<close> and \<open>float_div\<close> are \<open>*\<close> and \<open>/\<close> of floats (a
  division by zero gives nan or an infinity and does not raise). \<open>sort_with_nan\<close> is what
  \<open>list.sort\<close> by descending score leaves of a list in which a score is nan: no order of
  the scores exists then, and what the sort leaves depends on its merge strategy.
\<close>

record numerics =
  np_dot :: "float64 list \<Rightarrow> float64 list \<Rightarrow> py_error + float64"
  np_norm :: "float64 list \<Rightarrow> float64"
  float_mul :: "float64 \<Rightarrow> float64 \<Rightarrow> float64"
  float_div :: "float64 \<Rightarrow> float64 \<Rightarrow> float64"
  sort_with_nan :: "(document \<times> float64) list \<Rightarrow> (document \<times> float64) list"

subsection \<open>The literal catalog of \<open>initialize_knowledge_base\<close>\<close>

definition doc_bag_001 :: document where
  \<open>doc_bag_001 = \<lparr>doc_id = ''bag_001'', category = ''Baggage'',
     title = ''Carry-on Baggage Allowance'',
     content =
         ''Carry-on baggage allowance for ERWIQ Airlines:\<newline>''
       @ ''            - Economy Class: 1 carry-on bag (max 7kg), dimensions 55x40x20cm\<newline>''
       @ ''            - Business Class: 2 carry-on bags (max 10kg each)\<newline>''
       @ ''            - First Class: 2 carry-on bags (max 12kg each)\<newline>''
       @ ''            All passengers may also bring 1 personal item (laptop bag, purse, small backpack).\<newline>''
       @ ''            Carry-on must fit in overhead bin or under seat in front of you.'',
     embedding = None\<rparr>\<close>

definition doc_bag_002 :: document where
  \<open>doc_bag_002 = \<lparr>doc_id = ''bag_002'', category = ''Baggage'',
     title = ''Checked Baggage Allowance'',
     content =
         ''Checked baggage allowance for ERWIQ Airlines:\<newline>''
       @ ''            - Economy Class: 1 bag, max 23kg, dimensions up to 158cm total\<newline>''
       @ ''            - Business Class: 2 bags, max 32kg each\<newline>''
       @ ''            - First Class: 3 bags, max 32kg each\<newline>''
       @ ''            Additional bags: '' @ [CHR 0xC3, CHR 0xA2, CHR 0xE2, CHR 0x80, CHR 0x9A, CHR 0xC2, CHR 0xB9] @ ''2,500 for domestic routes per extra bag.\<newline>''
       @ ''            Overweight bags (23-32kg): '' @ [CHR 0xC3, CHR 0xA2, CHR 0xE2, CHR 0x80, CHR 0x9A, CHR 0xC2, CHR 0xB9] @ ''1,500 extra fee.\<newline>''
       @ ''            Oversized bags (158-203cm): '' @ [CHR 0xC3, CHR 0xA2, CHR 0xE2, CHR 0x80, CHR 0x9A, CHR 0xC2, CHR 0xB9] @ ''3,000 extra fee.'',
     embedding = None\<rparr>\<close>

definition doc_bag_003 :: document where
  \<open>doc_bag_003 = \<lparr>doc_id = ''bag_003'', category = ''Baggage'',
     title = ''Prohibited Items'',
     content =
         ''Items prohibited in carry-on baggage:\<newline>''
       @ ''            - Sharp objects: knives, scissors (blade >6cm), razor blades\<newline>''
       @ ''            - Sporting goods: cricket bats, hockey sticks, golf clubs\<newline>''
       @ ''            - Firearms and weapons of any kind\<newline>''
       @ ''            - Explosives and flammable items\<newline>''
       @ ''            - Liquids over 100ml (must be in clear plastic bag)\<newline>''
       @ ''            Items prohibited in all baggage:\<newline>''
       @ ''            - Explosives, fireworks, flares\<newline>''
       @ ''            - Lithium batteries over 160Wh\<newline>''
       @ ''            - Toxic substances, radioactive materials'',
     embedding = None\<rparr>\<close>

definition doc_checkin_001 :: document where
  \<open>doc_checkin_001 = \<lparr>doc_id = ''checkin_001'', category = ''Check-in'',
     title = ''Online Check-in'',
     content =
         ''ERWIQ Airlines online check-in:\<newline>''
       @ ''            - Opens 48 hours before departure\<newline>''
       @ ''            - Closes 2 hours before departure for all flights\<newline>''
       @ ''            - Available at erwiqairlines.com or ERWIQ Airlines mobile app\<newline>''
       @ ''            - Select seats, add bags, and get digital boarding pass\<newline>''
       @ ''            - Passengers with checked bags must still visit bag drop counter\<newline>''
       @ ''            - Web check-in available in Hindi, English, and regional languages'',
     embedding = None\<rparr>\<close>

definition doc_checkin_002 :: document where
  \<open>doc_checkin_002 = \<lparr>doc_id = ''checkin_002'', category = ''Check-in'',
     title = ''Airport Check-in Deadlines'',
     content =
         ''Airport check-in counter deadlines:\<newline>''
       @ ''            - Domestic flights: Counter closes 45 minutes before departure\<newline>''
       @ ''            - Metro routes (Mumbai-Delhi, Delhi-Bangalore): Counter closes 60 minutes before\<newline>''
       @ ''            - First/Business class: Dedicated counters with priority service at all major airports\<newline>''
       @ ''            - Bag drop for online check-in: Closes 45 minutes before all flights\<newline>''
       @ ''            Passengers arriving after deadline may be denied boarding without refund.'',
     embedding = None\<rparr>\<close>

definition doc_booking_001 :: document where
  \<open>doc_booking_001 = \<lparr>doc_id = ''booking_001'', category = ''Booking'',
     title = ''Ticket Types and Flexibility'',
     content =
         ''ERWIQ Airlines ticket types:\<newline>''
       @ ''            - Saver Fare: No changes allowed, no refund. Seat assigned at check-in. Lowest price.\<newline>''
       @ ''            - Flexi Fare: Changes allowed with '' @ [CHR 0xC3, CHR 0xA2, CHR 0xE2, CHR 0x80, CHR 0x9A, CHR 0xC2, CHR 0xB9] @ ''2,000 fee. Refund as travel credit minus '' @ [CHR 0xC3, CHR 0xA2, CHR 0xE2, CHR 0x80, CHR 0x9A, CHR 0xC2, CHR 0xB9] @ ''2,500 fee.\<newline>''
       @ ''            - Premium Fare: Free changes up to 24 hours before departure, full refund available.\<newline>''
       @ ''            - Business Fare: Free unlimited changes, full refund anytime.\<newline>''
       @ ''            - First Class: Free unlimited changes, full refund anytime, dedicated support line.'',
     embedding = None\<rparr>\<close>

definition doc_booking_002 :: document where
  \<open>doc_booking_002 = \<lparr>doc_id = ''booking_002'', category = ''Booking'',
     title = ''24-Hour Cancellation Policy'',
     content =
         ''ERWIQ Airlines 24-hour free cancellation:\<newline>''
       @ ''            - All tickets booked directly with ERWIQ Airlines can be cancelled within 24 hours of booking for full refund\<newline>''
       @ ''            - Flight must be at least 7 days away from departure\<newline>''
       @ ''            - Refund processed to original payment method within 7-10 business days\<newline>''
       @ ''            - UPI refunds processed within 24-48 hours\<newline>''
       @ ''            - This policy applies to all fare types including Saver Fare\<newline>''
       @ ''            - Does not apply to tickets booked through third-party websites like MakeMyTrip, Goibibo'',
     embedding = None\<rparr>\<close>

definition doc_booking_003 :: document where
  \<open>doc_booking_003 = \<lparr>doc_id = ''booking_003'', category = ''Booking'',
     title = ''Refund Processing Time'',
     content =
         ''Refund processing times at ERWIQ Airlines:\<newline>''
       @ ''            - Credit card refunds: 7-10 business days\<newline>''
       @ ''            - Debit card refunds: 10-14 business days\<newline>''
       @ ''            - UPI refunds: 24-48 hours\<newline>''
       @ ''            - Net banking: 5-7 business days\<newline>''
       @ ''            - Travel credit: Issued immediately, valid for 12 months\<newline>''
       @ ''            Refunds are processed to original form of payment only.\<newline>''
       @ ''            For booking modifications, contact our support at 1800-ERWIQ-AIR (toll-free).'',
     embedding = None\<rparr>\<close>

definition doc_special_001 :: document where
  \<open>doc_special_001 = \<lparr>doc_id = ''special_001'', category = ''Special Services'',
     title = ''Traveling with Pets'',
     content =
         ''ERWIQ Airlines pet policy:\<newline>''
       @ ''            - Small pets (dogs, cats under 8kg): Allowed in cabin, '' @ [CHR 0xC3, CHR 0xA2, CHR 0xE2, CHR 0x80, CHR 0x9A, CHR 0xC2, CHR 0xB9] @ ''3,500 each way\<newline>''
       @ ''            - Pet must fit in carrier under seat (max 46x28x24cm)\<newline>''
       @ ''            - Larger pets: Must travel in cargo hold, '' @ [CHR 0xC3, CHR 0xA2, CHR 0xE2, CHR 0x80, CHR 0x9A, CHR 0xC2, CHR 0xB9] @ ''7,500 each way\<newline>''
       @ ''            - Service animals: Travel free in cabin with valid documentation\<newline>''
       @ ''            - Book pet travel at least 48 hours before departure\<newline>''
       @ ''            - Maximum 2 pets per passenger, 4 pets per flight\<newline>''
       @ ''            - Pets not allowed on flights under 2 hours duration\<newline>''
       @ ''            - Health certificate required, issued within 10 days of travel'',
     embedding = None\<rparr>\<close>

definition doc_special_002 :: document where
  \<open>doc_special_002 = \<lparr>doc_id = ''special_002'', category = ''Special Services'',
     title = ''Unaccompanied Minors'',
     content =
         ''Unaccompanied minor service (UM Service):\<newline>''
       @ ''            - Available for children ages 5-14 traveling alone\<newline>''
       @ ''            - Children 15-17 may use service optionally\<newline>''
       @ ''            - Fee: '' @ [CHR 0xC3, CHR 0xA2, CHR 0xE2, CHR 0x80, CHR 0x9A, CHR 0xC2, CHR 0xB9] @ ''3,000 each way for all domestic routes\<newline>''
       @ ''            - Includes dedicated staff escort through airport and flight\<newline>''
       @ ''            - Must be booked at least 48 hours in advance by calling customer care\<newline>''
       @ ''            - Child delivered only to pre-authorized adult with valid government ID (Aadhaar/PAN/Passport)\<newline>''
       @ ''            - Not available on flights with layover over 2 hours\<newline>''
       @ ''            - Special meals for children available on request'',
     embedding = None\<rparr>\<close>

definition doc_special_003 :: document where
  \<open>doc_special_003 = \<lparr>doc_id = ''special_003'', category = ''Special Services'',
     title = ''Wheelchair and Mobility Assistance'',
     content =
         ''Mobility assistance at ERWIQ Airlines:\<newline>''
       @ ''            - Wheelchair assistance: Free of charge, request when booking or at least 48 hours before\<newline>''
       @ ''            - Types: WCHR (to/from gate), WCHS (to/from seat), WCHC (full assistance)\<newline>''
       @ ''            - Personal wheelchairs: Transported free as checked item\<newline>''
       @ ''            - Electric wheelchairs/scooters: Accepted, must notify 48 hours ahead for battery handling\<newline>''
       @ ''            - Stretcher service available on select routes (advance booking required)\<newline>''
       @ ''            - Priority boarding for passengers needing extra time\<newline>''
       @ ''            - All major Indian airports have accessibility features'',
     embedding = None\<rparr>\<close>

definition doc_loyalty_001 :: document where
  \<open>doc_loyalty_001 = \<lparr>doc_id = ''loyalty_001'', category = ''Loyalty'',
     title = ''ERWIQ Wings Rewards Program'',
     content =
         ''ERWIQ Wings loyalty program:\<newline>''
       @ ''            - Earn 10 Wings points per '' @ [CHR 0xC3, CHR 0xA2, CHR 0xE2, CHR 0x80, CHR 0x9A, CHR 0xC2, CHR 0xB9] @ ''100 spent on flights\<newline>''
       @ ''            - Business class: Earn 15 Wings points per '' @ [CHR 0xC3, CHR 0xA2, CHR 0xE2, CHR 0x80, CHR 0x9A, CHR 0xC2, CHR 0xB9] @ ''100\<newline>''
       @ ''            - First class: Earn 20 Wings points per '' @ [CHR 0xC3, CHR 0xA2, CHR 0xE2, CHR 0x80, CHR 0x9A, CHR 0xC2, CHR 0xB9] @ ''100\<newline>''
       @ ''            - Points valid for 24 months from last activity\<newline>''
       @ ''            - Redeem for flights starting at 5,000 points one-way (short routes)\<newline>''
       @ ''            - Status tiers: Silver (10k points), Gold (25k), Platinum (50k), Diamond (100k)\<newline>''
       @ ''            - Earn bonus points with ERWIQ co-branded credit cards (HDFC, ICICI, SBI)\<newline>''
       @ ''            - Transfer points from partner hotels and banks'',
     embedding = None\<rparr>\<close>

definition doc_loyalty_002 :: document where
  \<open>doc_loyalty_002 = \<lparr>doc_id = ''loyalty_002'', category = ''Loyalty'',
     title = ''Elite Status Benefits'',
     content =
         ''ERWIQ Wings Elite status benefits:\<newline>''
       @ ''            Silver (10k points/year):\<newline>''
       @ ''            - Priority check-in, 1 free checked bag, priority boarding\<newline>''
       @ ''            Gold (25k points/year):\<newline>''
       @ ''            - Above + complimentary seat selection, 2 free checked bags, lounge access (2 visits/year)\<newline>''
       @ ''            Platinum (50k points/year):\<newline>''
       @ ''            - Above + unlimited lounge access, complimentary upgrades when available, dedicated helpline\<newline>''
       @ ''            Diamond (100k points/year):\<newline>''
       @ ''            - Above + guaranteed upgrades, free companion ticket annually, exclusive airport meet & greet at metros'',
     embedding = None\<rparr>\<close>

definition doc_delay_001 :: document where
  \<open>doc_delay_001 = \<lparr>doc_id = ''delay_001'', category = ''Delays'',
     title = ''Flight Delay Compensation'',
     content =
         ''ERWIQ Airlines delay compensation policy (as per DGCA guidelines):\<newline>''
       @ ''            For delays within airline control:\<newline>''
       @ ''            - 2+ hour delay: Refreshments (snacks and beverages)\<newline>''
       @ ''            - 4+ hour delay: Meal voucher ('' @ [CHR 0xC3, CHR 0xA2, CHR 0xE2, CHR 0x80, CHR 0x9A, CHR 0xC2, CHR 0xB9] @ ''500) + rebooking on next available flight\<newline>''
       @ ''            - 6+ hour delay: Full refund option or hotel accommodation if overnight\<newline>''
       @ ''            For weather or ATC delays:\<newline>''
       @ ''            - Rebooking on next available flight at no charge\<newline>''
       @ ''            - No meal or hotel compensation (outside airline control)\<newline>''
       @ ''            - ERWIQ will assist with alternate arrangements where possible'',
     embedding = None\<rparr>\<close>

definition doc_delay_002 :: document where
  \<open>doc_delay_002 = \<lparr>doc_id = ''delay_002'', category = ''Delays'',
     title = ''Cancelled Flight Rights'',
     content =
         ''Your rights when ERWIQ Airlines cancels your flight:\<newline>''
       @ ''            - Full refund to original payment method, OR\<newline>''
       @ ''            - Rebooking on next available ERWIQ flight at no charge, OR\<newline>''
       @ ''            - Rebooking on partner airline if faster (subject to availability)\<newline>''
       @ ''            If cancellation is within 24 hours of departure:\<newline>''
       @ ''            - Meal vouchers provided during wait\<newline>''
       @ ''            - Hotel accommodation if overnight wait required (for different-city connections)\<newline>''
       @ ''            - Transportation to/from hotel arranged by ERWIQ\<newline>''
       @ ''            For cancellations within airline control, compensation of '' @ [CHR 0xC3, CHR 0xA2, CHR 0xE2, CHR 0x80, CHR 0x9A, CHR 0xC2, CHR 0xB9] @ ''5,000 for delays over 6 hours.\<newline>''
       @ ''            Contact: 1800-ERWIQ-AIR or visit nearest ERWIQ counter.'',
     embedding = None\<rparr>\<close>

definition doc_india_001 :: document where
  \<open>doc_india_001 = \<lparr>doc_id = ''india_001'', category = ''India Specific'',
     title = ''Valid ID Requirements'',
     content =
         ''Valid ID for domestic travel on ERWIQ Airlines:\<newline>''
       @ ''            Accepted government-issued photo IDs:\<newline>''
       @ ''            - Aadhaar Card (most preferred)\<newline>''
       @ ''            - Passport\<newline>''
       @ ''            - PAN Card\<newline>''
       @ ''            - Voter ID\<newline>''
       @ ''            - Driving License\<newline>''
       @ ''            - Government employee ID\<newline>''
       @ ''            - Student ID with photo (for students under 18)\<newline>''
       @ ''            For children under 5: Birth certificate with parent's ID\<newline>''
       @ ''            DigiLocker documents accepted at all airports\<newline>''
       @ ''            ID must match name on booking exactly'',
     embedding = None\<rparr>\<close>

definition doc_india_002 :: document where
  \<open>doc_india_002 = \<lparr>doc_id = ''india_002'', category = ''India Specific'',
     title = ''Payment Options'',
     content =
         ''Payment options for ERWIQ Airlines bookings:\<newline>''
       @ ''            - All major credit cards (Visa, Mastercard, RuPay, Amex)\<newline>''
       @ ''            - Debit cards with 3D secure\<newline>''
       @ ''            - UPI (Google Pay, PhonePe, Paytm, BHIM)\<newline>''
       @ ''            - Net Banking (all major banks)\<newline>''
       @ ''            - EMI options available on bookings above '' @ [CHR 0xC3, CHR 0xA2, CHR 0xE2, CHR 0x80, CHR 0x9A, CHR 0xC2, CHR 0xB9] @ ''5,000 (select banks)\<newline>''
       @ ''            - ERWIQ Wallet (preloaded wallet with 2% bonus)\<newline>''
       @ ''            - Corporate billing for business accounts\<newline>''
       @ ''            All payments secured with Indian banking standards and RBI guidelines'',
     embedding = None\<rparr>\<close>

definition catalog :: "document list" where
  "catalog = [doc_bag_001,
     doc_bag_002,
     doc_bag_003,
     doc_checkin_001,
     doc_checkin_002,
     doc_booking_001,
     doc_booking_002,
     doc_booking_003,
     doc_special_001,
     doc_special_002,
     doc_special_003,
     doc_loyalty_001,
     doc_loyalty_002,
     doc_delay_001,
     doc_delay_002,
     doc_india_001,
     doc_india_002]"

definition initialize_knowledge_base :: "document list" where
  "initialize_knowledge_base = catalog"

subsection \<open>Similarity search\<close>

text \<open>
  \<open>cosine_similarity\<close>: the dot product first, then the two norms, their product and
  the quotient.
\<close>

definition cosine_similarity ::
  "numerics \<Rightarrow> float64 list \<Rightarrow> float64 list \<Rightarrow> py_error + float64" where
  "cosine_similarity nu vec1 vec2 =
     (case np_dot nu vec1 vec2 of
        Inl err \<Rightarrow> Inl err
      | Inr d \<Rightarrow> Inr (float_div nu d (float_mul nu (np_norm nu vec1) (np_norm nu vec2))))"

text \<open>The loop of \<open>search_knowledge_base\<close> that scores every document, in order.\<close>

fun score_documents ::
  "numerics \<Rightarrow> float64 list \<Rightarrow> document list \<Rightarrow> py_error + (document \<times> float64) list" where
  "score_documents nu query_embedding [] = Inr []"
| "score_documents nu query_embedding (doc # docs) =
     (case embedding doc of
        None \<Rightarrow> Inl (PyErr KeyError ''embedding'')
      | Some e \<Rightarrow>
          (case cosine_similarity nu query_embedding e of
             Inl err \<Rightarrow> Inl err
           | Inr similarity \<Rightarrow>
               (case score_documents nu query_embedding docs of
                  Inl err \<Rightarrow> Inl err
                | Inr results \<Rightarrow> Inr ((doc, similarity) # results))))"

text \<open>
  \<open>results.sort(key=lambda x: x['score'], reverse=True)\<close>. Python's sort is stable, also
  with \<open>reverse=True\<close>: on scores without nan it leaves the results in descending order
  of score, those of equal score in the order they had. That is the sort by insertion
  below: a result goes behind the results of greater score and before the results of
  equal score that stood behind it.
\<close>

fun insert_by_score ::
  "document \<times> float64 \<Rightarrow> (document \<times> float64) list \<Rightarrow> (document \<times> float64) list" where
  "insert_by_score r [] = [r]"
| "insert_by_score r (r' # rs) =
     (if float_lt (snd r) (snd r') then r' # insert_by_score r rs else r # r' # rs)"

definition sort_by_score_desc ::
  "numerics \<Rightarrow> (document \<times> float64) list \<Rightarrow> (document \<times> float64) list" where
  "sort_by_score_desc nu results =
     (if NaN \<in> set (map snd results) then sort_with_nan nu results
      else foldr insert_by_score results [])"

text \<open>The slice \<open>xs[:k]\<close>; a negative \<open>k\<close> counts from the end.\<close>

definition slice_to :: "int \<Rightarrow> 'a list \<Rightarrow> 'a list" where
  "slice_to k xs = (if 0 \<le> k then take (nat k) xs else take (nat (int (length xs) + k)) xs)"

text \<open>
  \<open>search_knowledge_base\<close>; \<open>get_embedding\<close> is the embedding call of the client, which
  may raise. The query is of any type: the program hands it to the client only.
\<close>

definition search_knowledge_base ::
  "numerics \<Rightarrow> ('q \<Rightarrow> py_error + float64 list) \<Rightarrow> document list \<Rightarrow> 'q \<Rightarrow> int
     \<Rightarrow> py_error + (document \<times> float64) list" where
  "search_knowledge_base nu get_embedding knowledge_base query top_k =
     (case knowledge_base of
        [] \<Rightarrow> Inr []
      | doc0 # _ \<Rightarrow>
          if embedding doc0 = None then Inr []
          else (case get_embedding query of
                  Inl err \<Rightarrow> Inl err
                | Inr query_embedding \<Rightarrow>
                    (case score_documents nu query_embedding knowledge_base of
                       Inl err \<Rightarrow> Inl err
                     | Inr results \<Rightarrow> Inr (slice_to top_k (sort_by_score_desc nu results)))))"

definition not_found_message :: string where
  \<open>not_found_message = ''No relevant policy information found for this query. Please contact ERWIQ Airlines customer care at 1800-ERWIQ-AIR for assistance.''\<close>

definition policy_header :: string where
  \<open>policy_header = ''Here'' @ [CHR 0x27] @ ''s the relevant policy information:\<newline>\<newline>''\<close>

definition format_block :: "document \<Rightarrow> string" where
  "format_block doc = ''**'' @ title doc @ ''**\<newline>'' @ content doc @ ''\<newline>\<newline>''"

text \<open>The loop of \<open>search_airline_policies\<close> over the results.\<close>

fun append_blocks :: "string \<Rightarrow> (document \<times> float64) list \<Rightarrow> string" where
  "append_blocks response [] = response"
| "append_blocks response ((doc, score) # results) =
     append_blocks
       (if float_ge score relevance_threshold then response @ format_block doc else response)
       results"

definition search_airline_policies ::
  "numerics \<Rightarrow> ('q \<Rightarrow> py_error + float64 list) \<Rightarrow> document list \<Rightarrow> 'q \<Rightarrow> py_error + string" where
  "search_airline_policies nu get_embedding knowledge_base query =
     (case search_knowledge_base nu get_embedding knowledge_base query 3 of
        Inl err \<Rightarrow> Inl err
      | Inr results \<Rightarrow>
          (case results of
             [] \<Rightarrow> Inr not_found_message
           | (doc, score) # _ \<Rightarrow>
               if float_lt score relevance_threshold then Inr not_found_message
               else Inr (append_blocks policy_header results)))"

subsection \<open>Loading the snapshot\<close>

text \<open>
  What \<open>json.load\<close> returns for a snapshot that parses, which is also what the global
  \<open>knowledge_base\<close> holds: a list of documents (what \<open>save_knowledge_base\<close> writes), another
  value that has a \<open>len\<close> (a list of other things, a string, an object), or a value
  without \<open>len\<close> (null, a number, a boolean); the last two are held as the name of their
  Python type.
\<close>

datatype kb_value = DocumentList "document list" | Sized string | Unsized string

text \<open>
  The snapshot file as \<open>load_knowledge_base\<close> finds it: not there (\<open>open\<close> raises
  FileNotFoundError); there but opening or reading it raises another exception; there with
  text that \<open>json.load\<close> rejects (with the message of its JSONDecodeError); or there with
  text that parses.
\<close>

datatype snapshot = Absent | Unreadable py_error | Malformed string | Parsed kb_value

fun error_class :: "py_error \<Rightarrow> exc_class" where
  "error_class (PyErr c m) = c"

text \<open>
  \<open>load_knowledge_base\<close>: the outcome (the returned flag, or the exception that leaves
  the function) and the value of \<open>knowledge_base\<close> afterwards. Only FileNotFoundError is
  caught. The parsed value is assigned before \<open>len\<close> is called on it in the \<open>print\<close>.
\<close>

fun load_knowledge_base :: "snapshot \<Rightarrow> kb_value \<Rightarrow> (py_error + bool) \<times> kb_value" where
  "load_knowledge_base (Parsed (Unsized tn)) knowledge_base =
     (Inl (PyErr TypeError (''object of type '' @ [CHR 0x27] @ tn @ [CHR 0x27] @ '' has no len()'')),
      Unsized tn)"
| "load_knowledge_base (Parsed v) knowledge_base = (Inr True, v)"
| "load_knowledge_base Absent knowledge_base = (Inr False, DocumentList initialize_knowledge_base)"
| "load_knowledge_base (Malformed msg) knowledge_base =
     (Inl (PyErr JSONDecodeError msg), knowledge_base)"
| "load_knowledge_base (Unreadable err) knowledge_base =
     (if error_class err = FileNotFoundError
      then (Inr False, DocumentList initialize_knowledge_base)
      else (Inl err, knowledge_base))"

section \<open>config.py: the static tables\<close>

record flight =
  route :: string
  departure :: string
  status :: string

record booking =
  passenger :: string
  b_flight :: string
  b_route :: string
  date :: string
  b_class :: string
  seat :: string
  b_status :: string
  meal :: string

record property =
  p_type :: string
  p_enum :: "string list option"
  p_description :: string

record tool_descriptor =
  td_type :: string
  td_name :: string
  td_description :: string
  td_parameters_type :: string
  td_properties :: "(string \<times> property) list"
  td_required :: "string list"
  td_additionalProperties :: bool

text \<open>A dict literal is the list of its items, in order; \<open>map_of\<close> is the lookup.\<close>

definition TICKET_PRICES :: "(string \<times> (string \<times> nat) list) list" where
  "TICKET_PRICES =
    [(''mumbai'', [(''economy'', 4999), (''business'', 12999), (''first'', 24999)]),
     (''delhi'', [(''economy'', 5499), (''business'', 14999), (''first'', 28999)]),
     (''bangalore'', [(''economy'', 4499), (''business'', 11999), (''first'', 22999)]),
     (''chennai'', [(''economy'', 4299), (''business'', 10999), (''first'', 21999)]),
     (''kolkata'', [(''economy'', 5999), (''business'', 15999), (''first'', 29999)]),
     (''hyderabad'', [(''economy'', 4599), (''business'', 11499), (''first'', 22499)]),
     (''ahmedabad'', [(''economy'', 3999), (''business'', 9999), (''first'', 19999)]),
     (''pune'', [(''economy'', 3499), (''business'', 8999), (''first'', 17999)]),
     (''jaipur'', [(''economy'', 4199), (''business'', 10499), (''first'', 20999)]),
     (''goa'', [(''economy'', 5499), (''business'', 13999), (''first'', 26999)]),
     (''kochi'', [(''economy'', 4799), (''business'', 12499), (''first'', 23999)]),
     (''lucknow'', [(''economy'', 3999), (''business'', 9499), (''first'', 18999)])]"

definition FLIGHTS_DB :: "(string \<times> flight) list" where
  "FLIGHTS_DB =
    [(''EQ101'', \<lparr>route = ''Mumbai '' @ [CHR 0xE2, CHR 0x86, CHR 0x92] @ '' Delhi'', departure = ''06:00'', status = ''On Time''\<rparr>),
     (''EQ202'', \<lparr>route = ''Delhi '' @ [CHR 0xE2, CHR 0x86, CHR 0x92] @ '' Bangalore'', departure = ''09:30'', status = ''Delayed 30min''\<rparr>),
     (''EQ303'', \<lparr>route = ''Chennai '' @ [CHR 0xE2, CHR 0x86, CHR 0x92] @ '' Kolkata'', departure = ''14:15'', status = ''On Time''\<rparr>),
     (''EQ404'', \<lparr>route = ''Hyderabad '' @ [CHR 0xE2, CHR 0x86, CHR 0x92] @ '' Mumbai'', departure = ''18:45'', status = ''Cancelled''\<rparr>),
     (''EQ505'', \<lparr>route = ''Bangalore '' @ [CHR 0xE2, CHR 0x86, CHR 0x92] @ '' Goa'', departure = ''11:00'', status = ''Boarding''\<rparr>),
     (''EQ606'', \<lparr>route = ''Pune '' @ [CHR 0xE2, CHR 0x86, CHR 0x92] @ '' Jaipur'', departure = ''07:30'', status = ''On Time''\<rparr>),
     (''EQ707'', \<lparr>route = ''Kochi '' @ [CHR 0xE2, CHR 0x86, CHR 0x92] @ '' Chennai'', departure = ''16:00'', status = ''Delayed 1hr''\<rparr>),
     (''EQ808'', \<lparr>route = ''Ahmedabad '' @ [CHR 0xE2, CHR 0x86, CHR 0x92] @ '' Lucknow'', departure = ''20:30'', status = ''On Time''\<rparr>)]"

definition BOOKINGS_DB :: "(string \<times> booking) list" where
  "BOOKINGS_DB =
    [(''ABC123'', \<lparr>passenger = ''Rahul Sharma'', b_flight = ''EQ101'', b_route = ''Mumbai '' @ [CHR 0xE2, CHR 0x86, CHR 0x92] @ '' Delhi'',
        date = ''2025-06-15'', b_class = ''Business'', seat = ''2A'',
        b_status = ''Confirmed'', meal = ''Vegetarian''\<rparr>),
     (''XYZ789'', \<lparr>passenger = ''Priya Patel'', b_flight = ''EQ303'', b_route = ''Chennai '' @ [CHR 0xE2, CHR 0x86, CHR 0x92] @ '' Kolkata'',
        date = ''2025-06-20'', b_class = ''Economy'', seat = ''24F'',
        b_status = ''Confirmed'', meal = ''Standard''\<rparr>),
     (''DEF456'', \<lparr>passenger = ''Amit Kumar'', b_flight = ''EQ404'', b_route = ''Hyderabad '' @ [CHR 0xE2, CHR 0x86, CHR 0x92] @ '' Mumbai'',
        date = ''2025-06-18'', b_class = ''First'', seat = ''1A'',
        b_status = ''Cancelled - Refund Pending'', meal = ''Jain''\<rparr>),
     (''PQR999'', \<lparr>passenger = ''Sneha Reddy'', b_flight = ''EQ505'', b_route = ''Bangalore '' @ [CHR 0xE2, CHR 0x86, CHR 0x92] @ '' Goa'',
        date = ''2025-06-22'', b_class = ''Economy'', seat = ''15C'',
        b_status = ''Confirmed'', meal = ''Non-Vegetarian''\<rparr>),
     (''LMN555'', \<lparr>passenger = ''Vikram Singh'', b_flight = ''EQ606'', b_route = ''Pune '' @ [CHR 0xE2, CHR 0x86, CHR 0x92] @ '' Jaipur'',
        date = ''2025-06-25'', b_class = ''Business'', seat = ''4B'',
        b_status = ''Confirmed'', meal = ''Vegetarian''\<rparr>)]"

definition OPENAI_MODEL :: string where
  "OPENAI_MODEL = ''gpt-4o-mini''"

definition CLAUDE_MODEL :: string where
  "CLAUDE_MODEL = ''claude-sonnet-4-20250514''"

definition GEMINI_MODEL :: string where
  "GEMINI_MODEL = ''gemini-2.0-flash''"

definition SYSTEM_MESSAGE :: string where
  \<open>SYSTEM_MESSAGE =
       ''You are a helpful and factual customer support assistant for **ERWIQ Airlines**.\<newline>''
     @ ''ERWIQ Airlines was founded by **SANTHOSH KUMAR**.\<newline>''
     @ ''\<newline>''
     @ ''Your responsibilities:\<newline>''
     @ ''- Help customers with flight bookings, cancellations, and modifications\<newline>''
     @ ''- Provide accurate information about airline policies and procedures\<newline>''
     @ ''- Answer questions about baggage, check-in, refunds, and special services\<newline>''
     @ ''- Handle refund and compensation requests\<newline>''
     @ ''\<newline>''
     @ ''IMPORTANT: When customers ask about policies, rules, or procedures:\<newline>''
     @ ''- Use the search_airline_policies tool to find accurate information\<newline>''
     @ ''- Base your answers on the retrieved policy documents\<newline>''
     @ ''- Don't make up policies - if information isn't found, say so\<newline>''
     @ ''\<newline>''
     @ ''Guidelines:\<newline>''
     @ ''- Keep responses helpful and accurate\<newline>''
     @ ''- Quote specific rules and limits from policies when relevant\<newline>''
     @ ''- For complex issues, offer to escalate to a human agent\<newline>''
     @ ''- All prices are in Indian Rupees ('' @ [CHR 0xE2, CHR 0x82, CHR 0xB9] @ '')\<newline>''
     @ ''\<newline>''
     @ ''Available tools:\<newline>''
     @ ''- get_ticket_price: Check flight prices\<newline>''
     @ ''- get_flight_status: Get flight status updates\<newline>''
     @ ''- lookup_booking: Find booking details by PNR\<newline>''
     @ ''- process_refund: Process refund requests\<newline>''
     @ ''- get_destination_image: Generate destination images\<newline>''
     @ ''- search_airline_policies: Search FAQs and policies\<newline>''\<close>

definition TOOL_get_ticket_price :: tool_descriptor where
  \<open>TOOL_get_ticket_price = \<lparr>td_type = ''function'', td_name = ''get_ticket_price'',
     td_description = ''Get the price of a flight ticket to a destination city in India. Use this when a customer asks about ticket prices or how much it costs to fly somewhere.'',
     td_parameters_type = ''object'',
     td_properties =
       [(''destination_city'', \<lparr>p_type = ''string'', p_enum = None,
          p_description = ''The Indian city the customer wants to fly to (e.g., 'Mumbai', 'Delhi', 'Bangalore', 'Goa')''\<rparr>),
        (''travel_class'', \<lparr>p_type = ''string'', p_enum = Some [''economy'', ''business'', ''first''],
          p_description = ''The travel class. Defaults to economy if not specified.''\<rparr>)],
     td_required = [''destination_city''],
     td_additionalProperties = False\<rparr>\<close>

definition TOOL_get_flight_status :: tool_descriptor where
  \<open>TOOL_get_flight_status = \<lparr>td_type = ''function'', td_name = ''get_flight_status'',
     td_description = ''Get the current status of an ERWIQ Airlines flight (on time, delayed, cancelled, boarding). Flight numbers start with 'EQ'.'',
     td_parameters_type = ''object'',
     td_properties =
       [(''flight_number'', \<lparr>p_type = ''string'', p_enum = None,
          p_description = ''The flight number (e.g., 'EQ101', 'EQ202')''\<rparr>)],
     td_required = [''flight_number''],
     td_additionalProperties = False\<rparr>\<close>

definition TOOL_lookup_booking :: tool_descriptor where
  \<open>TOOL_lookup_booking = \<lparr>td_type = ''function'', td_name = ''lookup_booking'',
     td_description = ''Look up a booking using the PNR (booking reference). Use this when a customer wants to check their booking details.'',
     td_parameters_type = ''object'',
     td_properties =
       [(''pnr'', \<lparr>p_type = ''string'', p_enum = None,
          p_description = ''The 6-character booking reference (e.g., 'ABC123')''\<rparr>)],
     td_required = [''pnr''],
     td_additionalProperties = False\<rparr>\<close>

definition TOOL_process_refund :: tool_descriptor where
  \<open>TOOL_process_refund = \<lparr>td_type = ''function'', td_name = ''process_refund'',
     td_description = ''Process a refund request for a cancelled or unwanted booking. Use this when a customer wants to cancel and get a refund.'',
     td_parameters_type = ''object'',
     td_properties =
       [(''pnr'', \<lparr>p_type = ''string'', p_enum = None,
          p_description = ''The booking reference to refund''\<rparr>),
        (''reason'', \<lparr>p_type = ''string'', p_enum = None,
          p_description = ''The reason for the refund request''\<rparr>)],
     td_required = [''pnr'', ''reason''],
     td_additionalProperties = False\<rparr>\<close>

definition TOOL_get_destination_image :: tool_descriptor where
  \<open>TOOL_get_destination_image = \<lparr>td_type = ''function'', td_name = ''get_destination_image'',
     td_description = ''Generate a beautiful travel image of an Indian destination city. Use this when a customer wants to see what a destination looks like.'',
     td_parameters_type = ''object'',
     td_properties =
       [(''city'', \<lparr>p_type = ''string'', p_enum = None,
          p_description = ''The Indian city to generate an image for''\<rparr>)],
     td_required = [''city''],
     td_additionalProperties = False\<rparr>\<close>

definition TOOL_search_airline_policies :: tool_descriptor where
  \<open>TOOL_search_airline_policies = \<lparr>td_type = ''function'', td_name = ''search_airline_policies'',
     td_description = ''Search ERWIQ Airlines knowledge base for policies, FAQs, and procedures. Use this when a customer asks about baggage rules, check-in procedures, refund policies, pet travel, wheelchair assistance, loyalty programs, ID requirements, or any airline policy.'',
     td_parameters_type = ''object'',
     td_properties =
       [(''query'', \<lparr>p_type = ''string'', p_enum = None,
          p_description = ''The topic or question to search for in the knowledge base''\<rparr>)],
     td_required = [''query''],
     td_additionalProperties = False\<rparr>\<close>

definition TOOLS :: "tool_descriptor list" where
  "TOOLS = [TOOL_get_ticket_price, TOOL_get_flight_status, TOOL_lookup_booking, TOOL_process_refund, TOOL_get_destination_image]"

definition RAG_TOOL :: tool_descriptor where
  "RAG_TOOL = TOOL_search_airline_policies"

section \<open>tools.py: the tool handlers and \<open>execute_tool\<close>\<close>

subsection \<open>Decoded arguments\<close>

text \<open>
  A value decoded from JSON, as far as the program looks at it: a string, or any other
  value (null, a boolean, a number, an array, an object) held as the name of its Python
  type and the text \<open>str()\<close> gives for it. \<open>json\<close> is what \<open>json.loads\<close> returns: a dict
  (the list of its items, in order, the keys distinct) or a value that is not a dict.
  An argument text is held as what \<open>json.loads\<close> makes of it: \<open>NotJSON msg\<close> is a text
  that \<open>json.loads\<close> rejects with a JSONDecodeError of message \<open>msg\<close>.
\<close>

datatype jval = JStr string | JOther string string

datatype json = JObject "(string \<times> jval) list" | JValue jval

datatype payload = NotJSON string | JSON json

fun json_loads :: "payload \<Rightarrow> py_error + json" where
  "json_loads (NotJSON msg) = Inl (PyErr JSONDecodeError msg)"
| "json_loads (JSON v) = Inr v"

fun type_name :: "jval \<Rightarrow> string" where
  "type_name (JStr s) = ''str''"
| "type_name (JOther tn r) = tn"

text \<open>The text of a value inside an f-string.\<close>

fun py_format :: "jval \<Rightarrow> string" where
  "py_format (JStr s) = s"
| "py_format (JOther tn r) = r"

definition py_None :: jval where
  "py_None = JOther ''NoneType'' ''None''"

definition quoted :: "string \<Rightarrow> string" where
  "quoted s = [CHR 0x27] @ s @ [CHR 0x27]"

definition no_attribute :: "string \<Rightarrow> string \<Rightarrow> py_error" where
  "no_attribute tn attr =
     PyErr AttributeError (quoted tn @ '' object has no attribute '' @ quoted attr)"

text \<open>
  The receiver of a call of a \<open>str\<close> method: the text of a string, the AttributeError
  for any other value.
\<close>

fun str_receiver :: "string \<Rightarrow> jval \<Rightarrow> py_error + string" where
  "str_receiver attr (JStr s) = Inr s"
| "str_receiver attr (JOther tn r) = Inl (no_attribute tn attr)"

subsection \<open>The \<open>str\<close> methods and number formats the handlers use\<close>

text \<open>
  On ASCII text these are Python's \<open>lower\<close>, \<open>upper\<close>, \<open>strip\<close>, \<open>title\<close> and
  \<open>replace(' ', '_')\<close>; bytes outside ASCII are left as they are.
\<close>

definition is_upper :: "char \<Rightarrow> bool" where
  "is_upper c = (65 \<le> (of_char c :: nat) \<and> (of_char c :: nat) \<le> 90)"

definition is_lower :: "char \<Rightarrow> bool" where
  "is_lower c = (97 \<le> (of_char c :: nat) \<and> (of_char c :: nat) \<le> 122)"

definition to_lower :: "char \<Rightarrow> char" where
  "to_lower c = (if is_upper c then char_of ((of_char c :: nat) + 32) else c)"

definition to_upper :: "char \<Rightarrow> char" where
  "to_upper c = (if is_lower c then char_of ((of_char c :: nat) - 32) else c)"

definition is_space :: "char \<Rightarrow> bool" where
  "is_space c = ((9 \<le> (of_char c :: nat) \<and> (of_char c :: nat) \<le> 13)
                 \<or> (28 \<le> (of_char c :: nat) \<and> (of_char c :: nat) \<le> 32))"

definition str_lower :: "string \<Rightarrow> string" where
  "str_lower s = map to_lower s"

definition str_upper :: "string \<Rightarrow> string" where
  "str_upper s = map to_upper s"

definition str_strip :: "string \<Rightarrow> string" where
  "str_strip s = rev (dropWhile is_space (rev (dropWhile is_space s)))"

fun title_from :: "bool \<Rightarrow> string \<Rightarrow> string" where
  "title_from previous_is_cased [] = []"
| "title_from previous_is_cased (c # cs) =
     (if previous_is_cased then to_lower c else to_upper c)
     # title_from (is_upper c \<or> is_lower c) cs"

definition str_title :: "string \<Rightarrow> string" where
  "str_title s = title_from False s"

definition replace_spaces :: "string \<Rightarrow> string" where
  "replace_spaces s = map (\<lambda>c. if c = CHR '' '' then CHR ''_'' else c) s"

text \<open>\<open>'sep'.join(xs)\<close>\<close>

fun join :: "string \<Rightarrow> string list \<Rightarrow> string" where
  "join sep [] = []"
| "join sep [x] = x"
| "join sep (x # y # ys) = x @ sep @ join sep (y # ys)"

text \<open>\<open>'x' in s\<close> on texts.\<close>

fun is_prefix :: "string \<Rightarrow> string \<Rightarrow> bool" where
  "is_prefix [] s = True"
| "is_prefix (p # ps) [] = False"
| "is_prefix (p # ps) (c # cs) = (p = c \<and> is_prefix ps cs)"

fun contains :: "string \<Rightarrow> string \<Rightarrow> bool" where
  "contains sub [] = (sub = [])"
| "contains sub (c # cs) = (is_prefix sub (c # cs) \<or> contains sub cs)"

text \<open>\<open>str(n)\<close> and \<open>f"{n:,}"\<close> of a natural number.\<close>

definition digit :: "nat \<Rightarrow> char" where
  "digit d = char_of (48 + d)"

function decimal :: "nat \<Rightarrow> string" where
  "decimal n = (if n < 10 then [digit n] else decimal (n div 10) @ [digit (n mod 10)])"
  by pat_completeness auto
termination
  by (relation "measure id") auto

function group_thousands :: "string \<Rightarrow> string" where
  "group_thousands ds =
     (if length ds \<le> 3 then ds
      else group_thousands (take (length ds - 3) ds) @ '','' @ drop (length ds - 3) ds)"
  by pat_completeness auto
termination
  by (relation "measure length") auto

text \<open>The two equations are unfolded by hand, or by evaluation on a numeral.\<close>

declare decimal.simps [simp del]

declare group_thousands.simps [simp del]

definition with_commas :: "nat \<Rightarrow> string" where
  "with_commas n = group_thousands (decimal n)"

definition rupee :: string where
  "rupee = [CHR 0xE2, CHR 0x82, CHR 0xB9]"

subsection \<open>The handlers\<close>

definition get_ticket_price :: "jval \<Rightarrow> jval \<Rightarrow> py_error + string" where
  \<open>get_ticket_price destination_city travel_class =
     (case str_receiver ''lower'' destination_city of
        Inl err \<Rightarrow> Inl err
      | Inr dest \<Rightarrow>
          (let city = str_strip (str_lower dest) in
           case str_receiver ''lower'' travel_class of
             Inl err \<Rightarrow> Inl err
           | Inr tc \<Rightarrow>
               (let travel_class' = str_strip (str_lower tc) in
                case map_of TICKET_PRICES city of
                  None \<Rightarrow>
                    Inr (''Sorry, we don't fly to '' @ dest @ ''. Available destinations: ''
                         @ join '', '' (map fst TICKET_PRICES))
                | Some classes \<Rightarrow>
                    (case map_of classes travel_class' of
                       None \<Rightarrow> Inr ''Invalid class. Choose from: economy, business, first''
                     | Some price \<Rightarrow>
                         Inr (rupee @ with_commas price @ '' for '' @ str_title travel_class'
                              @ '' class to '' @ str_title dest)))))\<close>

definition get_flight_status :: "jval \<Rightarrow> py_error + string" where
  \<open>get_flight_status flight_number =
     (case str_receiver ''upper'' flight_number of
        Inl err \<Rightarrow> Inl err
      | Inr fn \<Rightarrow>
          (let flight_number' = str_strip (str_upper fn) in
           case map_of FLIGHTS_DB flight_number' of
             None \<Rightarrow>
               Inr (''Flight '' @ flight_number'
                    @ '' not found. Please check the flight number. Our flights start with 'EQ' (e.g., EQ101, EQ202).'')
           | Some flight \<Rightarrow>
               Inr (''Flight '' @ flight_number' @ '' ('' @ route flight @ ''): Departure ''
                    @ departure flight @ '', Status: '' @ status flight)))\<close>

definition lookup_booking :: "jval \<Rightarrow> py_error + string" where
  \<open>lookup_booking pnr =
     (case str_receiver ''upper'' pnr of
        Inl err \<Rightarrow> Inl err
      | Inr p \<Rightarrow>
          (let pnr' = str_strip (str_upper p) in
           case map_of BOOKINGS_DB pnr' of
             None \<Rightarrow> Inr (''Booking '' @ pnr' @ '' not found. Please check your booking reference.'')
           | Some booking \<Rightarrow>
               Inr (''Booking '' @ pnr' @ '':\<newline>''
                    @ ''- Passenger: '' @ passenger booking @ ''\<newline>''
                    @ ''- Flight: '' @ b_flight booking @ '' ('' @ b_route booking @ '')\<newline>''
                    @ ''- Date: '' @ date booking @ ''\<newline>''
                    @ ''- Class: '' @ b_class booking @ '', Seat: '' @ seat booking @ ''\<newline>''
                    @ ''- Status: '' @ b_status booking @ ''\<newline>''
                    @ ''- Meal Preference: '' @ meal booking)))\<close>

record refund =
  r_pnr :: string
  r_reason :: jval
  r_amount :: nat
  r_status :: string

text \<open>
  The module state of tools.py, and what the handlers leave outside the program:
  \<open>randint_calls\<close> counts the calls of \<open>random.randint\<close>, \<open>files\<close> are the image files
  written (name and bytes), oldest first.
\<close>

record tools_state =
  refund_requests :: "string \<rightharpoonup> refund"
  randint_calls :: nat
  files :: "(string \<times> string) list"

definition class_multiplier :: "(string \<times> real) list" where
  "class_multiplier = [(''Economy'', 1), (''Business'', 5/2), (''First'', 5)]"

text \<open>
  \<open>process_refund\<close>; \<open>randint i\<close> is what the \<open>i\<close>-th call of
  \<open>random.randint(100000, 999999)\<close> returns.
\<close>

definition process_refund ::
  "(nat \<Rightarrow> nat) \<Rightarrow> jval \<Rightarrow> jval \<Rightarrow> tools_state \<Rightarrow> (py_error + string) \<times> tools_state" where
  \<open>process_refund randint pnr reason st =
     (case str_receiver ''upper'' pnr of
        Inl err \<Rightarrow> (Inl err, st)
      | Inr p \<Rightarrow>
          (let pnr' = str_strip (str_upper p) in
           case map_of BOOKINGS_DB pnr' of
             None \<Rightarrow> (Inr (''Cannot process refund: Booking '' @ pnr' @ '' not found.''), st)
           | Some booking \<Rightarrow>
               if contains ''Cancelled'' (b_status booking)
               then (Inr (''Booking '' @ pnr' @ '' is already cancelled. Refund is being processed.''), st)
               else
                 (let refund_ref = ''REF'' @ decimal (randint (randint_calls st));
                      base_price = 4999;
                      refund_amount =
                        nat \<lfloor>base_price
                             * (case map_of class_multiplier (b_class booking) of
                                  None \<Rightarrow> 1 | Some m \<Rightarrow> m)\<rfloor>;
                      st' = st\<lparr>randint_calls := randint_calls st + 1,
                               refund_requests := (refund_requests st)(refund_ref \<mapsto>
                                 \<lparr>r_pnr = pnr', r_reason = reason, r_amount = refund_amount,
                                  r_status = ''Approved''\<rparr>)\<rparr>
                  in (Inr (''Refund Request Processed:\<newline>''
                           @ ''- Reference: '' @ refund_ref @ ''\<newline>''
                           @ ''- Booking: '' @ pnr' @ ''\<newline>''
                           @ ''- Passenger: '' @ passenger booking @ ''\<newline>''
                           @ ''- Refund Amount: '' @ rupee @ with_commas refund_amount @ ''\<newline>''
                           @ ''- Status: Approved - Will be credited in 5-7 business days\<newline>''
                           @ ''- Reason: '' @ py_format reason), st'))))\<close>

text \<open>
  The image client: \<open>images_generate prompt\<close> is the outcome of the call
  \<open>images.generate\<close> and of decoding its base64 data (the bytes of the image, or what
  one of the two raises); \<open>file_write name\<close> is \<open>None\<close> if the file can be written, or
  what opening or writing it raises.
\<close>

record image_client =
  images_generate :: "string \<Rightarrow> py_error + string"
  file_write :: "string \<Rightarrow> py_error option"

definition image_prompt :: "jval \<Rightarrow> string" where
  \<open>image_prompt city =
     ''A beautiful vibrant travel poster showcasing '' @ py_format city
     @ '', India as a travel destination, featuring iconic landmarks, local culture, temples, markets, and atmosphere. High quality, inspiring wanderlust, colorful Indian aesthetic.''\<close>

definition image_sorry :: "jval \<Rightarrow> py_error \<Rightarrow> string" where
  \<open>image_sorry city e =
     ''Sorry, I couldn't generate an image for '' @ py_format city @ '': '' @ str_of_error e\<close>

text \<open>\<open>get_destination_image\<close>: the whole body is in a \<open>try\<close>, so it always returns.\<close>

definition get_destination_image ::
  "jval \<Rightarrow> image_client option \<Rightarrow> tools_state \<Rightarrow> string \<times> tools_state" where
  \<open>get_destination_image city openai_client st =
     (case openai_client of
        None \<Rightarrow> (image_sorry city (no_attribute ''NoneType'' ''images''), st)
      | Some client \<Rightarrow>
          (case images_generate client (image_prompt city) of
             Inl e \<Rightarrow> (image_sorry city e, st)
           | Inr image_data \<Rightarrow>
               (case str_receiver ''lower'' city of
                  Inl e \<Rightarrow> (image_sorry city e, st)
                | Inr c \<Rightarrow>
                    (let filename = ''destination_'' @ replace_spaces (str_lower c) @ ''.png'' in
                     case file_write client filename of
                       Some e \<Rightarrow> (image_sorry city e, st)
                     | None \<Rightarrow>
                         (''I've generated a beautiful travel image of '' @ c
                          @ ''! The image showcases the iconic landmarks and vibrant culture of this amazing Indian destination.'',
                          st\<lparr>files := files st @ [(filename, image_data)]\<rparr>)))))\<close>

subsection \<open>Calling a handler with \<open>**args\<close>\<close>

text \<open>The TypeErrors of a call \<open>f(**args)\<close>, in CPython's words.\<close>

definition not_a_mapping :: "string \<Rightarrow> jval \<Rightarrow> py_error" where
  "not_a_mapping f v =
     PyErr TypeError (''tools.'' @ f @ ''() argument after ** must be a mapping, not '' @ type_name v)"

definition unexpected_keyword :: "string \<Rightarrow> string \<Rightarrow> py_error" where
  "unexpected_keyword f k =
     PyErr TypeError (f @ ''() got an unexpected keyword argument '' @ quoted k)"

fun name_list :: "string list \<Rightarrow> string" where
  "name_list [] = []"
| "name_list [a] = quoted a"
| "name_list [a, b] = quoted a @ '' and '' @ quoted b"
| "name_list (a # b # c # ds) =
     join '', '' (map quoted (butlast (a # b # c # ds))) @ '', and '' @ quoted (last (c # ds))"

definition missing_arguments :: "string \<Rightarrow> string list \<Rightarrow> py_error" where
  "missing_arguments f names =
     PyErr TypeError (f @ ''() missing '' @ decimal (length names)
       @ '' required positional argument'' @ (if length names = 1 then [] else ''s'')
       @ '': '' @ name_list names)"

text \<open>
  Binding the items of a dict to the parameters of \<open>f\<close>: the first key that is no
  parameter is an unexpected keyword; then the required parameters without a value are
  missing. \<open>None\<close> says that the call goes through.
\<close>

definition bind_kwargs ::
  "string \<Rightarrow> string list \<Rightarrow> string list \<Rightarrow> (string \<times> jval) list \<Rightarrow> py_error option" where
  "bind_kwargs f params required kwargs =
     (case filter (\<lambda>k. k \<notin> set params) (map fst kwargs) of
        k # _ \<Rightarrow> Some (unexpected_keyword f k)
      | [] \<Rightarrow>
          (case filter (\<lambda>p. p \<notin> set (map fst kwargs)) required of
             [] \<Rightarrow> None
           | p # ps \<Rightarrow> Some (missing_arguments f (p # ps))))"

text \<open>The value bound to a parameter: the one of the dict, else the default.\<close>

definition argument :: "(string \<times> jval) list \<Rightarrow> string \<Rightarrow> jval \<Rightarrow> jval" where
  "argument kwargs p dflt = (case map_of kwargs p of None \<Rightarrow> dflt | Some v \<Rightarrow> v)"

subsection \<open>\<open>execute_tool\<close>\<close>

text \<open>
  \<open>execute_tool\<close>: \<open>json.loads\<close> runs first, for every tool name. Of a required
  parameter \<open>argument\<close> never takes the default, since \<open>bind_kwargs\<close> has passed.
\<close>

definition execute_tool ::
  "(nat \<Rightarrow> nat) \<Rightarrow> string \<Rightarrow> payload \<Rightarrow> image_client option \<Rightarrow> tools_state
     \<Rightarrow> (py_error + string) \<times> tools_state" where
  \<open>execute_tool randint tool_name tool_arguments openai_client st =
     (case json_loads tool_arguments of
        Inl err \<Rightarrow> (Inl err, st)
      | Inr args \<Rightarrow>
          if tool_name = ''get_ticket_price'' then
            (case args of
               JValue v \<Rightarrow> (Inl (not_a_mapping ''get_ticket_price'' v), st)
             | JObject kwargs \<Rightarrow>
                 (case bind_kwargs ''get_ticket_price'' [''destination_city'', ''travel_class'']
                         [''destination_city''] kwargs of
                    Some err \<Rightarrow> (Inl err, st)
                  | None \<Rightarrow>
                      (get_ticket_price (argument kwargs ''destination_city'' py_None)
                         (argument kwargs ''travel_class'' (JStr ''economy'')), st)))
          else if tool_name = ''get_flight_status'' then
            (case args of
               JValue v \<Rightarrow> (Inl (not_a_mapping ''get_flight_status'' v), st)
             | JObject kwargs \<Rightarrow>
                 (case bind_kwargs ''get_flight_status'' [''flight_number''] [''flight_number''] kwargs of
                    Some err \<Rightarrow> (Inl err, st)
                  | None \<Rightarrow> (get_flight_status (argument kwargs ''flight_number'' py_None), st)))
          else if tool_name = ''lookup_booking'' then
            (case args of
               JValue v \<Rightarrow> (Inl (not_a_mapping ''lookup_booking'' v), st)
             | JObject kwargs \<Rightarrow>
                 (case bind_kwargs ''lookup_booking'' [''pnr''] [''pnr''] kwargs of
                    Some err \<Rightarrow> (Inl err, st)
                  | None \<Rightarrow> (lookup_booking (argument kwargs ''pnr'' py_None), st)))
          else if tool_name = ''process_refund'' then
            (case args of
               JValue v \<Rightarrow> (Inl (not_a_mapping ''process_refund'' v), st)
             | JObject kwargs \<Rightarrow>
                 (case bind_kwargs ''process_refund'' [''pnr'', ''reason''] [''pnr'', ''reason''] kwargs of
                    Some err \<Rightarrow> (Inl err, st)
                  | None \<Rightarrow>
                      process_refund randint (argument kwargs ''pnr'' py_None)
                        (argument kwargs ''reason'' py_None) st))
          else if tool_name = ''get_destination_image'' then
            (case args of
               JValue v \<Rightarrow> (Inl (no_attribute (type_name v) ''get''), st)
             | JObject kwargs \<Rightarrow>
                 (case get_destination_image (argument kwargs ''city'' py_None) openai_client st of
                    (text, st') \<Rightarrow> (Inr text, st')))
          else (Inr (''Error: Unknown tool '' @ quoted tool_name), st))\<close>

section \<open>app.py: the order of the backends of \<open>chat_with_fallback\<close>\<close>

definition all_models :: "string list" where
  "all_models = [''openai'', ''claude'', ''gemini'']"

text \<open>The loop \<open>for model in all_models: if model not in models_to_try: append\<close>.\<close>

fun add_fallbacks :: "string list \<Rightarrow> string list \<Rightarrow> string list" where
  "add_fallbacks [] models_to_try = models_to_try"
| "add_fallbacks (model # models) models_to_try =
     add_fallbacks models
       (if model \<notin> set models_to_try then models_to_try @ [model] else models_to_try)"

definition models_to_try :: "string \<Rightarrow> string list" where
  "models_to_try preferred_model = add_fallbacks all_models [preferred_model]"

section \<open>app.py: chat with tools and fallback\<close>

subsection \<open>The clients\<close>

text \<open>
  A tool invocation of a chat response; \<open>function_arguments\<close> is the argument text, held
  as what \<open>json.loads\<close> makes of it. A chat response is held as the \<open>finish_reason\<close> of
  its first choice and the content and tool calls of that choice's message; both are
  optional in the API (\<open>None\<close>).
\<close>

record tool_call =
  call_id :: string
  function_name :: string
  function_arguments :: payload

record completion =
  finish_reason :: string
  message_content :: "string option"
  message_tool_calls :: "tool_call list option"

text \<open>
  A message of the list sent to the chat API: a dict of role and content, the response
  message appended as it came, or a dict of role \<open>tool\<close> with the id of its call.
\<close>

datatype message =
    Msg string string
  | ResponseMsg "string option" "tool_call list option"
  | ToolMsg string string

record request =
  req_model :: string
  req_messages :: "message list"
  req_tools :: "tool_descriptor list option"

record claude_request =
  cl_model :: string
  cl_max_tokens :: nat
  cl_system :: string
  cl_messages :: "(string \<times> string) list"

text \<open>
  What lies outside the program during one exchange. Each client call is a function of
  its request that returns the response or what the call raises. \<open>numerics\<close> is the
  numeric library under the search. \<open>claude_client\<close> is
  \<open>None\<close> without ANTHROPIC_API_KEY; \<open>claude_client\<close> returns the text of the first
  content block. \<open>gemini_generate\<close> takes the model name, the system instruction and
  the prompt and returns the text. \<open>elapsed m\<close> is the time the attempt on model \<open>m\<close>
  takes (\<open>time.time() - start_time\<close>); \<open>log_time\<close> and \<open>notify_time\<close> are what
  \<open>datetime.now().isoformat()\<close> gives in \<open>log_interaction\<close> and \<open>send_notification\<close>.
\<close>

record env =
  chat_completions_create :: "request \<Rightarrow> py_error + completion"
  embeddings_create :: "jval \<Rightarrow> py_error + float64 list"
  numerics :: numerics
  images :: image_client
  claude_client :: "(claude_request \<Rightarrow> py_error + string) option"
  GOOGLE_API_KEY :: "string option"
  gemini_generate :: "string \<Rightarrow> string \<Rightarrow> string \<Rightarrow> py_error + string"
  randint :: "nat \<Rightarrow> nat"
  elapsed :: "string \<Rightarrow> real"
  log_time :: string
  notify_time :: string

text \<open>
  The state of the program: the module states of utils.py and tools.py, the document set
  of knowledge_base.py, and the requests submitted to the chat API so far, oldest first.
\<close>

record world =
  utils :: utils_state
  tools :: tools_state
  knowledge_base :: "document list"
  chat_requests :: "request list"

definition all_tools :: "tool_descriptor list" where
  "all_tools = TOOLS @ [RAG_TOOL]"

subsection \<open>The plain chats\<close>

definition chat_claude :: "env \<Rightarrow> string \<Rightarrow> (string \<times> string) list \<Rightarrow> py_error + string" where
  "chat_claude e user_message history =
     (case claude_client e of
        None \<Rightarrow> Inl (PyErr Exception ''Claude client not initialized'')
      | Some messages_create \<Rightarrow>
          messages_create \<lparr>cl_model = CLAUDE_MODEL, cl_max_tokens = 1024,
            cl_system = SYSTEM_MESSAGE, cl_messages = history @ [(''user'', user_message)]\<rparr>)"

fun gemini_prompt :: "string \<Rightarrow> (string \<times> string) list \<Rightarrow> string" where
  "gemini_prompt full_prompt [] = full_prompt"
| "gemini_prompt full_prompt ((role, text) # history) =
     gemini_prompt
       (full_prompt @ (if role = ''user'' then ''User'' else ''Assistant'') @ '': '' @ text
        @ ''\<newline>'')
       history"

definition chat_gemini :: "env \<Rightarrow> string \<Rightarrow> (string \<times> string) list \<Rightarrow> py_error + string" where
  "chat_gemini e user_message history =
     (if \<not> truthy (GOOGLE_API_KEY e) then Inl (PyErr Exception ''Gemini not configured'')
      else gemini_generate e GEMINI_MODEL SYSTEM_MESSAGE
             (gemini_prompt [] history @ ''User: '' @ user_message))"

subsection \<open>\<open>execute_tool_call\<close> and \<open>chat_with_tools\<close>\<close>

definition execute_tool_call ::
  "env \<Rightarrow> string \<Rightarrow> payload \<Rightarrow> world \<Rightarrow> (py_error + string) \<times> world" where
  "execute_tool_call e tool_name tool_arguments w =
     (if tool_name = ''search_airline_policies'' then
        (case json_loads tool_arguments of
           Inl err \<Rightarrow> (Inl err, w)
         | Inr args \<Rightarrow>
             (case args of
                JValue v \<Rightarrow> (Inl (no_attribute (type_name v) ''get''), w)
              | JObject kwargs \<Rightarrow>
                  (search_airline_policies (numerics e) (embeddings_create e) (knowledge_base w)
                     (argument kwargs ''query'' (JStr '''')), w)))
      else if tool_name = ''get_destination_image'' then
        (case execute_tool (randint e) tool_name tool_arguments (Some (images e)) (tools w) of
           (result, ts) \<Rightarrow> (result, w\<lparr>tools := ts\<rparr>))
      else
        (case execute_tool (randint e) tool_name tool_arguments None (tools w) of
           (result, ts) \<Rightarrow> (result, w\<lparr>tools := ts\<rparr>)))"

text \<open>
  The loop of \<open>chat_with_tools\<close> over the tool calls of the first response, in the order
  of the response: the name goes to \<open>tools_used\<close>, the call is executed, its result is
  appended to the messages. An exception of a call leaves the loop and the function.
\<close>

fun run_tool_calls ::
  "env \<Rightarrow> tool_call list \<Rightarrow> message list \<Rightarrow> string list \<Rightarrow> world
     \<Rightarrow> (py_error + message list \<times> string list) \<times> world" where
  "run_tool_calls e [] messages tools_used w = (Inr (messages, tools_used), w)"
| "run_tool_calls e (tc # tcs) messages tools_used w =
     (case execute_tool_call e (function_name tc) (function_arguments tc) w of
        (Inl err, w') \<Rightarrow> (Inl err, w')
      | (Inr result, w') \<Rightarrow>
          run_tool_calls e tcs (messages @ [ToolMsg (call_id tc) result])
            (tools_used @ [function_name tc]) w')"

definition initial_messages :: "string \<Rightarrow> (string \<times> string) list \<Rightarrow> message list" where
  "initial_messages user_message history =
     [Msg ''system'' SYSTEM_MESSAGE] @ map (\<lambda>(role, text). Msg role text) history
     @ [Msg ''user'' user_message]"

text \<open>\<open>openai_client.chat.completions.create\<close>, with the request recorded.\<close>

definition submit :: "env \<Rightarrow> request \<Rightarrow> world \<Rightarrow> (py_error + completion) \<times> world" where
  "submit e req w = (chat_completions_create e req, w\<lparr>chat_requests := chat_requests w @ [req]\<rparr>)"

text \<open>
  \<open>chat_with_tools\<close>. The \<open>for\<close> over \<open>response_message.tool_calls\<close> raises a TypeError
  when the response with \<open>finish_reason\<close> \<open>tool_calls\<close> carries no list of calls.
\<close>

definition not_iterable :: py_error where
  \<open>not_iterable = PyErr TypeError ([CHR 0x27] @ ''NoneType' object is not iterable'')\<close>

definition chat_with_tools ::
  "env \<Rightarrow> string \<Rightarrow> (string \<times> string) list \<Rightarrow> world
     \<Rightarrow> (py_error + string option \<times> string list) \<times> world" where
  "chat_with_tools e user_message history w =
     (let messages = initial_messages user_message history in
      case submit e \<lparr>req_model = OPENAI_MODEL, req_messages = messages,
                     req_tools = Some all_tools\<rparr> w of
        (Inl err, w1) \<Rightarrow> (Inl err, w1)
      | (Inr response, w1) \<Rightarrow>
          if finish_reason response = ''tool_calls'' then
            (case message_tool_calls response of
               None \<Rightarrow> (Inl not_iterable, w1)
             | Some calls \<Rightarrow>
                 (case run_tool_calls e calls
                         (messages @ [ResponseMsg (message_content response)
                                        (message_tool_calls response)])
                         [] w1 of
                    (Inl err, w2) \<Rightarrow> (Inl err, w2)
                  | (Inr (messages', tools_used), w2) \<Rightarrow>
                      (case submit e \<lparr>req_model = OPENAI_MODEL, req_messages = messages',
                                      req_tools = None\<rparr> w2 of
                         (Inl err, w3) \<Rightarrow> (Inl err, w3)
                       | (Inr final_response, w3) \<Rightarrow>
                           (Inr (message_content final_response, tools_used), w3))))
          else (Inr (message_content response, []), w1))"

subsection \<open>\<open>chat_with_fallback\<close>\<close>

definition error_response :: string where
  \<open>error_response = ''I apologize, but I'm experiencing technical difficulties. Please try again later or contact ERWIQ Airlines support at 1800-ERWIQ-AIR.''\<close>

text \<open>
  The body of the \<open>try\<close> for one model: \<open>None\<close> is the \<open>continue\<close> of a name that is no
  backend; otherwise the response and the tools used, logged, or the exception that
  the \<open>except\<close> clause catches. \<open>log_interaction\<close> is inside the \<open>try\<close>: on a response
  without content its \<open>len\<close> raises a TypeError before anything is logged.
\<close>

definition log_success ::
  "env \<Rightarrow> string \<Rightarrow> string \<Rightarrow> string option \<Rightarrow> string list \<Rightarrow> world
     \<Rightarrow> (py_error + string \<times> string list) \<times> world" where
  \<open>log_success e model user_message response tools_used w =
     (case response of
        None \<Rightarrow> (Inl (PyErr TypeError (''object of type 'NoneType' has no len()'')), w)
      | Some text \<Rightarrow>
          (case log_interaction (log_time e) user_message text (Some tools_used) model
                  (elapsed e model) None (utils w) of
             (entry, u) \<Rightarrow> (Inr (text, tools_used), w\<lparr>utils := u\<rparr>)))\<close>

definition attempt ::
  "env \<Rightarrow> string \<Rightarrow> string \<Rightarrow> (string \<times> string) list \<Rightarrow> world
     \<Rightarrow> (py_error + string \<times> string list) option \<times> world" where
  "attempt e model user_message history w =
     (if model = ''openai'' then
        (case chat_with_tools e user_message history w of
           (Inl err, w1) \<Rightarrow> (Some (Inl err), w1)
         | (Inr (response, tools_used), w1) \<Rightarrow>
             (case log_success e model user_message response tools_used w1 of
                (r, w2) \<Rightarrow> (Some r, w2)))
      else if model = ''claude'' then
        (case chat_claude e user_message history of
           Inl err \<Rightarrow> (Some (Inl err), w)
         | Inr response \<Rightarrow>
             (case log_success e model user_message (Some response) [] w of
                (r, w2) \<Rightarrow> (Some r, w2)))
      else if model = ''gemini'' then
        (case chat_gemini e user_message history of
           Inl err \<Rightarrow> (Some (Inl err), w)
         | Inr response \<Rightarrow>
             (case log_success e model user_message (Some response) [] w of
                (r, w2) \<Rightarrow> (Some r, w2)))
      else (None, w))"

text \<open>
  The loop over \<open>models_to_try\<close>: it returns at the first success, and otherwise runs
  out with the text of the last exception.
\<close>

datatype outcome = Returned string string "string list" | Exhausted "string option"

fun try_models ::
  "env \<Rightarrow> string \<Rightarrow> (string \<times> string) list \<Rightarrow> string list \<Rightarrow> string option \<Rightarrow> world
     \<Rightarrow> outcome \<times> world" where
  "try_models e user_message history [] last_error w = (Exhausted last_error, w)"
| "try_models e user_message history (model # models) last_error w =
     (case attempt e model user_message history w of
        (None, w') \<Rightarrow> try_models e user_message history models last_error w'
      | (Some (Inr (response, tools_used)), w') \<Rightarrow> (Returned response model tools_used, w')
      | (Some (Inl err), w') \<Rightarrow>
          try_models e user_message history models (Some (str_of_error err)) w')"

definition chat_with_fallback ::
  "env \<Rightarrow> string \<Rightarrow> (string \<times> string) list \<Rightarrow> string \<Rightarrow> world
     \<Rightarrow> (string \<times> string \<times> string list) \<times> world" where
  "chat_with_fallback e user_message history preferred_model w =
     (case try_models e user_message history (models_to_try preferred_model) None w of
        (Returned response model tools_used, w') \<Rightarrow> ((response, model, tools_used), w')
      | (Exhausted last_error, w') \<Rightarrow>
          (case log_interaction (log_time e) user_message error_response None default_model 0
                  last_error (utils w') of
             (entry, u) \<Rightarrow>
               ((error_response, ''none'', []),
                w'\<lparr>utils := send_notification (notify_time e) ''All Models Failed'' last_error
                               ''error'' u\<rparr>)))"

section \<open>Scripted clients\<close>

text \<open>
  The initial state of the program, and two scripted environments for the examples: in
  \<open>env_all_down\<close> every client call raises and there is no Claude client; in
  \<open>env_primary_down\<close> the Claude client answers.
\<close>

definition tools_init :: tools_state where
  "tools_init = \<lparr>refund_requests = Map.empty, randint_calls = 0, files = []\<rparr>"

definition world_init :: world where
  "world_init = \<lparr>utils = utils_init, tools = tools_init, knowledge_base = initialize_knowledge_base,
     chat_requests = []\<rparr>"

text \<open>
  A scripted numeric library for the examples: the arithmetic of the reals on finite
  values, which is what float64 gives on the vectors of the examples (components 0 and 1:
  every product, sum, root and quotient there is exact), nan for 0/0 and an infinity for
  another division by zero. A list whose scores are all nan is left as it is by the sort.
\<close>

fun finite_values :: "float64 list \<Rightarrow> real list option" where
  "finite_values [] = Some []"
| "finite_values (Finite x # xs) =
     (case finite_values xs of None \<Rightarrow> None | Some ys \<Rightarrow> Some (x # ys))"
| "finite_values (x # xs) = None"

definition exact_dot :: "float64 list \<Rightarrow> float64 list \<Rightarrow> py_error + float64" where
  "exact_dot v w =
     (if length v \<noteq> length w then Inl (PyErr ValueError ''shapes not aligned'')
      else (case (finite_values v, finite_values w) of
              (Some xs, Some ys) \<Rightarrow> Inr (Finite (sum_list (map (\<lambda>(x, y). x * y) (zip xs ys))))
            | _ \<Rightarrow> Inr NaN))"

definition exact_norm :: "float64 list \<Rightarrow> float64" where
  "exact_norm v =
     (case finite_values v of
        Some xs \<Rightarrow> Finite (sqrt (sum_list (map (\<lambda>x. x * x) xs)))
      | None \<Rightarrow> NaN)"

fun exact_mul :: "float64 \<Rightarrow> float64 \<Rightarrow> float64" where
  "exact_mul (Finite a) (Finite b) = Finite (a * b)"
| "exact_mul x y = NaN"

fun exact_div :: "float64 \<Rightarrow> float64 \<Rightarrow> float64" where
  "exact_div (Finite a) (Finite b) =
     (if b \<noteq> 0 then Finite (a / b)
      else if a = 0 then NaN else if 0 < a then PosInf else NegInf)"
| "exact_div x y = NaN"

definition exact_numerics :: numerics where
  "exact_numerics = \<lparr>np_dot = exact_dot, np_norm = exact_norm, float_mul = exact_mul,
     float_div = exact_div, sort_with_nan = (\<lambda>results. results)\<rparr>"

definition env_all_down :: env where
  "env_all_down =
     \<lparr>chat_completions_create = (\<lambda>req. Inl (PyErr ClientError ''Connection error.'')),
      embeddings_create = (\<lambda>q. Inl (PyErr ClientError ''Connection error.'')),
      numerics = exact_numerics,
      images = \<lparr>images_generate = (\<lambda>prompt. Inl (PyErr ClientError ''Connection error.'')),
                file_write = (\<lambda>name. None)\<rparr>,
      claude_client = None,
      GOOGLE_API_KEY = Some ''key'',
      gemini_generate = (\<lambda>m s prompt. Inl (PyErr ClientError ''429 quota exceeded'')),
      randint = (\<lambda>i. 100000 + i),
      elapsed = (\<lambda>m. 1/4),
      log_time = ''2025-06-15T10:00:00'',
      notify_time = ''2025-06-15T10:00:01''\<rparr>"

definition env_primary_down :: env where
  "env_primary_down = env_all_down\<lparr>claude_client := Some (\<lambda>req. Inr ''Hello from Claude'')\<rparr>"

text \<open>
  An environment in which the chat API answers at once, without tool calls, and one in
  which it asks for the status of a flight in every response: in the first and again in
  the second, which carries the final text.
\<close>

definition env_primary_up :: env where
  "env_primary_up = env_all_down
     \<lparr>chat_completions_create := (\<lambda>req. Inr
        \<lparr>finish_reason = ''stop'', message_content = Some ''Hello! How can I help?'',
         message_tool_calls = None\<rparr>)\<rparr>"


section \<open>Theorems\<close>

lemma models_to_try_eq:
  "models_to_try p = p # filter (\<lambda>m. m \<noteq> p) all_models"
  by (simp add: models_to_try_def all_models_def)

text \<open>
  C1: for every preferred backend the sequence of attempts is the preferred backend, then
  the other backends in the order openai, claude, gemini; no backend is in it twice; for
  claude it is claude, openai, gemini.
\<close>

theorem C1_fallback_sequence:
  "models_to_try p = p # filter (\<lambda>m. m \<noteq> p) [''openai'', ''claude'', ''gemini'']
   \<and> distinct (models_to_try p)
   \<and> models_to_try ''openai'' = [''openai'', ''claude'', ''gemini'']
   \<and> models_to_try ''claude'' = [''claude'', ''openai'', ''gemini'']
   \<and> models_to_try ''gemini'' = [''gemini'', ''openai'', ''claude'']"
  by (simp add: models_to_try_def all_models_def)

subsection \<open>Retrieval\<close>

text \<open>
  The order of the scores: \<open>float_ge\<close> is transitive, and the insertion sort gives a
  permutation in descending order that keeps the documents of equal score in the order
  they had.
\<close>

lemma float_lt_irrefl: "\<not> float_lt x x"
  by (cases x) simp_all

lemma float_lt_imp_ge: "float_lt x y \<Longrightarrow> float_ge y x"
  by (cases x; cases y) (simp_all add: float_ge_def)

lemma float_ge_trans: "float_ge x y \<Longrightarrow> float_ge y z \<Longrightarrow> float_ge x z"
  by (cases x; cases y; cases z) (simp_all add: float_ge_def)

lemma mset_insert_by_score: "mset (insert_by_score r rs) = add_mset r (mset rs)"
  by (induction rs) simp_all

lemma set_insert_by_score: "set (insert_by_score r rs) = insert r (set rs)"
  by (induction rs) auto

lemma sorted_insert_by_score:
  assumes "sorted_wrt (\<lambda>a b. float_ge (snd a) (snd b)) rs"
    and "snd r \<noteq> NaN" and "NaN \<notin> snd ` set rs"
  shows "sorted_wrt (\<lambda>a b. float_ge (snd a) (snd b)) (insert_by_score r rs)"
  using assms
proof (induction rs)
  case Nil
  then show ?case by simp
next
  case (Cons r' rs)
  show ?case
  proof (cases "float_lt (snd r) (snd r')")
    case True
    then have "float_ge (snd r') (snd r)" by (rule float_lt_imp_ge)
    then show ?thesis
      using True Cons by (auto simp: set_insert_by_score)
  next
    case False
    moreover have "snd r' \<noteq> NaN"
      using Cons.prems(3) by (metis image_eqI list.set_intros(1))
    ultimately have ge: "float_ge (snd r) (snd r')"
      using Cons.prems(2) by (simp add: float_ge_def)
    have "float_ge (snd r) (snd x)" if "x \<in> set rs" for x
      using ge Cons.prems(1) that float_ge_trans by fastforce
    then show ?thesis
      using False ge Cons.prems(1) by auto
  qed
qed

lemma filter_insert_by_score:
  "filter (\<lambda>x. snd x = s) (insert_by_score r rs) =
     (if snd r = s then r # filter (\<lambda>x. snd x = s) rs else filter (\<lambda>x. snd x = s) rs)"
proof (induction rs)
  case Nil
  then show ?case by simp
next
  case (Cons r' rs)
  show ?case
  proof (cases "float_lt (snd r) (snd r')")
    case True
    then have "snd r' \<noteq> snd r" using float_lt_irrefl by metis
    then show ?thesis using True Cons by auto
  next
    case False
    then show ?thesis by simp
  qed
qed

lemma insertion_sort_props:
  "mset (foldr insert_by_score rs []) = mset rs"
  "filter (\<lambda>x. snd x = s) (foldr insert_by_score rs []) = filter (\<lambda>x. snd x = s) rs"
  "NaN \<notin> snd ` set rs \<Longrightarrow>
     sorted_wrt (\<lambda>a b. float_ge (snd a) (snd b)) (foldr insert_by_score rs [])"
proof -
  show m: "mset (foldr insert_by_score rs []) = mset rs" for rs
    by (induction rs) (simp_all add: mset_insert_by_score)
  show "filter (\<lambda>x. snd x = s) (foldr insert_by_score rs []) = filter (\<lambda>x. snd x = s) rs"
    by (induction rs) (simp_all add: filter_insert_by_score)
  have st: "set (foldr insert_by_score rs []) = set rs" for rs
    using m [of rs] by (metis set_mset_mset)
  show "NaN \<notin> snd ` set rs \<Longrightarrow>
     sorted_wrt (\<lambda>a b. float_ge (snd a) (snd b)) (foldr insert_by_score rs [])"
    by (induction rs) (auto simp: st intro!: sorted_insert_by_score)
qed

lemma score_documents_list_all2:
  "list_all2 (\<lambda>d s. \<exists>e. embedding d = Some e \<and> cosine_similarity nu qe e = Inr s \<and> P s) kb ss
   \<Longrightarrow> score_documents nu qe kb = Inr (zip kb ss)"
  by (induction kb ss rule: list_all2_induct) auto

lemma slice_to_take: "\<exists>n. slice_to k xs = take n xs"
  by (auto simp: slice_to_def)

lemma length_slice_to:
  "0 \<le> k \<Longrightarrow> int (length (slice_to k xs)) \<le> k"
  "k < 0 \<Longrightarrow> length (slice_to k xs) = length xs - nat (- k)"
  by (auto simp: slice_to_def)

text \<open>
  C6, as the code has it: on a corpus in which every document has an embedding, with the
  embedding of the query fixed and every similarity a number (no exception of \<open>np.dot\<close>, no
  nan), \<open>search_knowledge_base\<close> returns; for a count \<open>k\<close> that is not negative it returns
  at most \<open>k\<close> results, and for a negative \<open>k\<close> all but the last \<open>-k\<close>; the results are a
  prefix of the scored documents in descending order of score, in which documents of equal
  score keep the order of the corpus; and every run with the same corpus, the same
  embedding of the query and the same \<open>k\<close> returns the same sequence.
\<close>

theorem C6_search_top_k:
  assumes emb: "get_embedding q = Inr qe"
    and scores: "list_all2 (\<lambda>d s. \<exists>e. embedding d = Some e
                     \<and> cosine_similarity nu qe e = Inr s \<and> s \<noteq> NaN) kb ss"
  shows "\<exists>rs full n.
      search_knowledge_base nu get_embedding kb q k = Inr rs
    \<and> (0 \<le> k \<longrightarrow> int (length rs) \<le> k)
    \<and> (k < 0 \<longrightarrow> length rs = length kb - nat (- k))
    \<and> sorted_wrt (\<lambda>a b. float_ge (snd a) (snd b)) rs
    \<and> rs = take n full
    \<and> mset full = mset (zip kb ss)
    \<and> sorted_wrt (\<lambda>a b. float_ge (snd a) (snd b)) full
    \<and> (\<forall>s. filter (\<lambda>r. snd r = s) full = filter (\<lambda>r. snd r = s) (zip kb ss))
    \<and> (\<forall>get_embedding' q'. get_embedding' q' = Inr qe \<longrightarrow>
           search_knowledge_base nu get_embedding' kb q' k = Inr rs)"
proof -
  let ?scored = "zip kb ss"
  let ?full = "foldr insert_by_score ?scored []"
  have len: "length kb = length ss"
    using scores by (rule list_all2_lengthD)
  have nonan: "NaN \<notin> snd ` set ?scored"
  proof
    assume "NaN \<in> snd ` set ?scored"
    then have "NaN \<in> set ss" using len by (metis map_snd_zip set_map)
    then obtain i where "i < length ss" "ss ! i = NaN" by (metis in_set_conv_nth)
    then show False using scores by (auto simp: list_all2_conv_all_nth)
  qed
  have sc: "score_documents nu qe kb = Inr ?scored"
    using scores by (rule score_documents_list_all2)
  have srt: "sort_by_score_desc nu ?scored = ?full"
    using nonan by (simp add: sort_by_score_desc_def)
  have run: "search_knowledge_base nu g kb q' k = Inr (slice_to k ?full)" if "g q' = Inr qe" for g q'
  proof (cases kb)
    case Nil
    then show ?thesis
      by (simp add: search_knowledge_base_def slice_to_def)
  next
    case (Cons d ds)
    then obtain e where "embedding d = Some e"
      using scores by (auto simp: list_all2_Cons1)
    then show ?thesis
      using that sc srt unfolding Cons
      by (simp add: search_knowledge_base_def del: score_documents.simps)
  qed
  obtain n where n: "slice_to k ?full = take n ?full"
    using slice_to_take by blast
  have desc: "sorted_wrt (\<lambda>a b. float_ge (snd a) (snd b)) ?full"
    using nonan by (rule insertion_sort_props)
  have "search_knowledge_base nu get_embedding kb q k = Inr (slice_to k ?full)"
    using emb by (rule run)
  moreover have "0 \<le> k \<longrightarrow> int (length (slice_to k ?full)) \<le> k"
    by (simp add: length_slice_to)
  moreover have "length ?full = length kb"
    using insertion_sort_props(1) [of ?scored] len by (metis length_zip min.idem size_mset)
  then have "k < 0 \<longrightarrow> length (slice_to k ?full) = length kb - nat (- k)"
    by (simp add: length_slice_to)
  moreover have "sorted_wrt (\<lambda>a b. float_ge (snd a) (snd b)) (slice_to k ?full)"
    unfolding n using desc by (rule sorted_wrt_take)
  moreover have "mset ?full = mset ?scored"
    by (rule insertion_sort_props)
  moreover have "\<forall>s. filter (\<lambda>r. snd r = s) ?full = filter (\<lambda>r. snd r = s) ?scored"
    by (simp add: insertion_sort_props)
  moreover have "\<forall>g q'. g q' = Inr qe \<longrightarrow> search_knowledge_base nu g kb q' k = Inr (slice_to k ?full)"
    using run by blast
  ultimately show ?thesis using n desc by blast
qed

text \<open>
  The scripted numeric library on the vectors of the examples.
\<close>

lemma exact_cosine:
  "cosine_similarity exact_numerics [Finite 1, Finite 0] [Finite 0, Finite 1] = Inr (Finite 0)"
  "cosine_similarity exact_numerics [Finite 1, Finite 0] [Finite 1, Finite 0] = Inr (Finite 1)"
  "cosine_similarity exact_numerics [Finite 0, Finite 0] [Finite 0, Finite 1] = Inr NaN"
  "cosine_similarity exact_numerics [Finite 0, Finite 0] [Finite 1, Finite 0] = Inr NaN"
  by (simp_all add: cosine_similarity_def exact_numerics_def exact_dot_def exact_norm_def)

lemma exact_sort_with_nan: "sort_with_nan exact_numerics results = results"
  by (simp add: exact_numerics_def)

text \<open>
  The theorem on three documents of which the last two tie: the scores are numbers, and
  for \<open>k = 2\<close> the two documents of score 1 come back in the order of the corpus.
\<close>

theorem C6_search_top_k_witness:
  "list_all2 (\<lambda>d s. \<exists>e. embedding d = Some e
       \<and> cosine_similarity exact_numerics [Finite 1, Finite 0] e = Inr s \<and> s \<noteq> NaN)
     [\<lparr>doc_id = ''a'', category = ''c'', title = ''A'', content = ''x'',
        embedding = Some [Finite 0, Finite 1]\<rparr>,
      \<lparr>doc_id = ''b'', category = ''c'', title = ''B'', content = ''y'',
        embedding = Some [Finite 1, Finite 0]\<rparr>,
      \<lparr>doc_id = ''c'', category = ''c'', title = ''C'', content = ''z'',
        embedding = Some [Finite 1, Finite 0]\<rparr>]
     [Finite 0, Finite 1, Finite 1]
   \<and> (\<exists>rs. search_knowledge_base exact_numerics (\<lambda>_. Inr [Finite 1, Finite 0])
           [\<lparr>doc_id = ''a'', category = ''c'', title = ''A'', content = ''x'',
              embedding = Some [Finite 0, Finite 1]\<rparr>,
            \<lparr>doc_id = ''b'', category = ''c'', title = ''B'', content = ''y'',
              embedding = Some [Finite 1, Finite 0]\<rparr>,
            \<lparr>doc_id = ''c'', category = ''c'', title = ''C'', content = ''z'',
              embedding = Some [Finite 1, Finite 0]\<rparr>]
           ''baggage'' 2 = Inr rs
         \<and> int (length rs) \<le> 2
         \<and> sorted_wrt (\<lambda>a b. float_ge (snd a) (snd b)) rs
         \<and> rs = [(\<lparr>doc_id = ''b'', category = ''c'', title = ''B'', content = ''y'',
                    embedding = Some [Finite 1, Finite 0]\<rparr>, Finite 1),
                  (\<lparr>doc_id = ''c'', category = ''c'', title = ''C'', content = ''z'',
                    embedding = Some [Finite 1, Finite 0]\<rparr>, Finite 1)])"
proof -
  let ?a = "\<lparr>doc_id = ''a'', category = ''c'', title = ''A'', content = ''x'',
          embedding = Some [Finite 0, Finite 1]\<rparr>"
  let ?b = "\<lparr>doc_id = ''b'', category = ''c'', title = ''B'', content = ''y'',
          embedding = Some [Finite 1, Finite 0]\<rparr>"
  let ?c = "\<lparr>doc_id = ''c'', category = ''c'', title = ''C'', content = ''z'',
          embedding = Some [Finite 1, Finite 0]\<rparr>"
  have h: "list_all2 (\<lambda>d s. \<exists>e. embedding d = Some e
             \<and> cosine_similarity exact_numerics [Finite 1, Finite 0] e = Inr s \<and> s \<noteq> NaN)
           [?a, ?b, ?c] [Finite 0, Finite 1, Finite 1]"
    by (simp add: exact_cosine)
  have v: "search_knowledge_base exact_numerics (\<lambda>_. Inr [Finite 1, Finite 0]) [?a, ?b, ?c]
             ''baggage'' 2 = Inr [(?b, Finite 1), (?c, Finite 1)]"
    by (simp add: search_knowledge_base_def exact_cosine sort_by_score_desc_def slice_to_def)
  from C6_search_top_k [of "\<lambda>_. Inr [Finite 1, Finite 0]" "''baggage''" "[Finite 1, Finite 0]",
      OF refl h, of 2]
  obtain rs where
    "search_knowledge_base exact_numerics (\<lambda>_. Inr [Finite 1, Finite 0]) [?a, ?b, ?c]
          ''baggage'' 2 = Inr rs"
    "int (length rs) \<le> 2" "sorted_wrt (\<lambda>a b. float_ge (snd a) (snd b)) rs"
    by auto
  then show ?thesis
    using h v by auto
qed

text \<open>
  C6 as the claim has it fails for a negative \<open>k\<close> and for a score that is nan: on the
  three documents, \<open>k = -1\<close> returns two results, which is more than \<open>k\<close>; and for a query
  embedding of norm zero every score is nan (0/0), the results come back as the sort
  leaves them, and nan is not at least nan, so they are not in descending order.
\<close>

theorem C6_counterexample:
  "search_knowledge_base exact_numerics (\<lambda>_. Inr [Finite 1, Finite 0])
       [\<lparr>doc_id = ''a'', category = ''c'', title = ''A'', content = ''x'',
          embedding = Some [Finite 0, Finite 1]\<rparr>,
        \<lparr>doc_id = ''b'', category = ''c'', title = ''B'', content = ''y'',
          embedding = Some [Finite 1, Finite 0]\<rparr>,
        \<lparr>doc_id = ''c'', category = ''c'', title = ''C'', content = ''z'',
          embedding = Some [Finite 1, Finite 0]\<rparr>]
       ''baggage'' (- 1)
     = Inr [(\<lparr>doc_id = ''b'', category = ''c'', title = ''B'', content = ''y'',
              embedding = Some [Finite 1, Finite 0]\<rparr>, Finite 1),
            (\<lparr>doc_id = ''c'', category = ''c'', title = ''C'', content = ''z'',
              embedding = Some [Finite 1, Finite 0]\<rparr>, Finite 1)]
   \<and> \<not> int (length
          [(\<lparr>doc_id = ''b'', category = ''c'', title = ''B'', content = ''y'',
              embedding = Some [Finite 1, Finite 0]\<rparr>, Finite 1),
           (\<lparr>doc_id = ''c'', category = ''c'', title = ''C'', content = ''z'',
              embedding = Some [Finite 1, Finite 0]\<rparr>, Finite 1 :: float64)]) \<le> - 1
   \<and> search_knowledge_base exact_numerics (\<lambda>_. Inr [Finite 0, Finite 0])
       [\<lparr>doc_id = ''a'', category = ''c'', title = ''A'', content = ''x'',
          embedding = Some [Finite 0, Finite 1]\<rparr>,
        \<lparr>doc_id = ''b'', category = ''c'', title = ''B'', content = ''y'',
          embedding = Some [Finite 1, Finite 0]\<rparr>]
       ''baggage'' 3
     = Inr [(\<lparr>doc_id = ''a'', category = ''c'', title = ''A'', content = ''x'',
              embedding = Some [Finite 0, Finite 1]\<rparr>, NaN),
            (\<lparr>doc_id = ''b'', category = ''c'', title = ''B'', content = ''y'',
              embedding = Some [Finite 1, Finite 0]\<rparr>, NaN)]
   \<and> \<not> float_ge NaN NaN"
  by (simp add: search_knowledge_base_def exact_cosine sort_by_score_desc_def slice_to_def
        float_ge_def exact_sort_with_nan)







text \<open>
  C8: where the claim and the code part. For a snapshot file that holds \<open>{\<close>, which
  \<open>json.load\<close> rejects, \<open>load_knowledge_base\<close> raises the JSONDecodeError and leaves the
  document set as it was (here empty), where the claim has it return \<open>False\<close> with the
  document set built from the catalog, as the function does for a file that is not there.
\<close>

theorem C8_malformed_snapshot:
  "load_knowledge_base
     (Malformed ''Expecting property name enclosed in double quotes: line 1 column 2 (char 1)'')
     (DocumentList [])
   = (Inl (PyErr JSONDecodeError
             ''Expecting property name enclosed in double quotes: line 1 column 2 (char 1)''),
      DocumentList [])
   \<and> load_knowledge_base Absent (DocumentList [])
     = (Inr False, DocumentList initialize_knowledge_base)
   \<and> DocumentList [] \<noteq> DocumentList initialize_knowledge_base"
  by (simp add: initialize_knowledge_base_def catalog_def)

subsection \<open>The audit log\<close>

text \<open>
  C9, as the code has it: a call of \<open>log_interaction\<close> on a state in which
  \<open>total_queries\<close> is the length of \<open>response_times\<close> leaves it so; it appends the
  response time; afterwards \<open>avg_response_time\<close> is the sum of \<open>response_times\<close> over
  their number; it appends exactly one entry to the audit log, the one it returns; and the
  \<open>errors\<close> counter goes up by one exactly when the error is neither \<open>None\<close> nor the empty
  text (\<open>if error:\<close>), and stays otherwise.
\<close>

theorem C9_log_interaction:
  assumes inv: "total_queries (analytics_data st) = length (response_times (analytics_data st))"
  shows "case log_interaction now user_message assistant_response tools_used model response_time
              error st of
     (log_entry, st') \<Rightarrow>
       total_queries (analytics_data st') = length (response_times (analytics_data st'))
     \<and> response_times (analytics_data st') = response_times (analytics_data st) @ [response_time]
     \<and> avg_response_time (analytics_data st')
         = sum_list (response_times (analytics_data st'))
           / real (length (response_times (analytics_data st')))
     \<and> errors (analytics_data st')
         = errors (analytics_data st) + (if error = None \<or> error = Some [] then 0 else 1)
     \<and> audit_logs st' = audit_logs st @ [log_entry]
     \<and> entry_error log_entry = error"
  using inv by (cases error) (simp_all add: log_interaction_def Let_def)

text \<open>
  The theorem on the initial state, with an error text.
\<close>

theorem C9_log_interaction_witness:
  "total_queries (analytics_data utils_init) = length (response_times (analytics_data utils_init))
   \<and> (case log_interaction ''2025-06-15T10:00:00'' ''hi'' ''hello'' (Some [''lookup_booking''])
             ''openai'' (3/2) (Some ''boom'') utils_init of
        (log_entry, st') \<Rightarrow>
          total_queries (analytics_data st') = 1
        \<and> response_times (analytics_data st') = [3/2]
        \<and> avg_response_time (analytics_data st') = 3/2
        \<and> errors (analytics_data st') = 1
        \<and> audit_logs st' = [log_entry])"
  using C9_log_interaction [where st = utils_init and now = "''2025-06-15T10:00:00''"
      and user_message = "''hi''" and assistant_response = "''hello''"
      and tools_used = "Some [''lookup_booking'']" and model = "''openai''"
      and response_time = "3/2" and error = "Some ''boom''"]
  by (simp add: utils_init_def analytics_init_def split: prod.splits)

text \<open>
  The claim as stated fails on an error that is the empty text (what \<open>str(e)\<close> gives for
  an exception without arguments): the error is not \<open>None\<close>, it is in the entry, and the
  counter has not moved.
\<close>

theorem C9_counterexample:
  "errors (analytics_data (snd (log_interaction ''2025-06-15T10:00:00'' ''hi'' ''hello'' None
       ''gpt-4o-mini'' 0 (Some '''') utils_init)))
   = errors (analytics_data utils_init)
   \<and> entry_error (fst (log_interaction ''2025-06-15T10:00:00'' ''hi'' ''hello'' None
       ''gpt-4o-mini'' 0 (Some '''') utils_init)) \<noteq> None"
  by (simp add: log_interaction_def Let_def utils_init_def analytics_init_def)

subsection \<open>The tool executor\<close>











lemma get_destination_image_returns:
  "\<exists>text st'. get_destination_image c client st = (text, st')"
  by (cases "get_destination_image c client st") simp












subsection \<open>One round of tool calls\<close>






subsection \<open>Fallback\<close>

lemma execute_tool_call_utils:
  "utils (snd (execute_tool_call e n a w)) = utils w"
  by (simp add: execute_tool_call_def split: sum.splits json.splits prod.splits)

lemma run_tool_calls_utils:
  "utils (snd (run_tool_calls e tcs ms used w)) = utils w"
proof (induction tcs arbitrary: ms used w)
  case Nil
  then show ?case by simp
next
  case (Cons tc tcs)
  show ?case
  proof (cases "execute_tool_call e (function_name tc) (function_arguments tc) w")
    case (Pair r w')
    have "utils w' = utils w"
      using execute_tool_call_utils [of e "function_name tc" "function_arguments tc" w] Pair by simp
    then show ?thesis using Pair Cons.IH by (cases r) simp_all
  qed
qed

lemma chat_with_tools_utils:
  "utils (snd (chat_with_tools e um h w)) = utils w"
proof -
  have "utils (snd (run_tool_calls e tcs ms [] (w\<lparr>chat_requests := rs\<rparr>))) = utils w" for tcs ms rs
    by (simp add: run_tool_calls_utils)
  then have *: "run_tool_calls e tcs ms [] (w\<lparr>chat_requests := rs\<rparr>) = (r, w2) \<Longrightarrow> utils w2 = utils w"
    for tcs ms rs r w2
    by (metis snd_conv)
  show ?thesis
    by (auto simp: chat_with_tools_def submit_def Let_def dest: *
          split: sum.splits prod.splits option.splits)
qed

lemma attempt_openai_raises:
  "fst (chat_with_tools e um h w) = Inl err \<Longrightarrow>
   attempt e ''openai'' um h w = (Some (Inl err), snd (chat_with_tools e um h w))"
  by (cases "chat_with_tools e um h w") (simp add: attempt_def)

lemma attempt_claude_raises:
  "chat_claude e um h = Inl err \<Longrightarrow> attempt e ''claude'' um h w = (Some (Inl err), w)"
  by (simp add: attempt_def)

lemma attempt_gemini_raises:
  "chat_gemini e um h = Inl err \<Longrightarrow> attempt e ''gemini'' um h w = (Some (Inl err), w)"
  by (simp add: attempt_def)

lemma attempt_no_backend:
  "m \<noteq> ''openai'' \<Longrightarrow> m \<noteq> ''claude'' \<Longrightarrow> m \<noteq> ''gemini'' \<Longrightarrow> attempt e m um h w = (None, w)"
  by (simp add: attempt_def)

lemma attempt_claude_returns:
  "chat_claude e um h = Inr text \<Longrightarrow>
   attempt e ''claude'' um h w =
     (Some (Inr (text, [])),
      w\<lparr>utils := snd (log_interaction (log_time e) um text (Some []) ''claude'' (elapsed e ''claude'')
                        None (utils w))\<rparr>)"
  by (simp add: attempt_def log_success_def split: prod.splits)

lemma all_backends_raise:
  assumes "fst (chat_with_tools e um h w) = Inl e1"
    and "chat_claude e um h = Inl e2"
    and "chat_gemini e um h = Inl e3"
  shows "try_models e um h (models_to_try p) None w =
           (Exhausted (Some (str_of_error (if p = ''gemini'' then e2 else e3))),
            snd (chat_with_tools e um h w))"
proof -
  consider "p = ''openai''" | "p = ''claude''" | "p = ''gemini''"
    | "p \<noteq> ''openai''" "p \<noteq> ''claude''" "p \<noteq> ''gemini''" by blast
  then show ?thesis
  proof cases
    case 1
    then show ?thesis
      using assms
      by (simp add: models_to_try_eq all_models_def attempt_openai_raises attempt_claude_raises
            attempt_gemini_raises)
  next
    case 2
    then show ?thesis
      using assms
      by (simp add: models_to_try_eq all_models_def attempt_openai_raises attempt_claude_raises
            attempt_gemini_raises)
  next
    case 3
    then show ?thesis
      using assms
      by (simp add: models_to_try_eq all_models_def attempt_openai_raises attempt_claude_raises
            attempt_gemini_raises)
  next
    case 4
    then show ?thesis
      using assms
      by (simp add: models_to_try_eq all_models_def attempt_openai_raises attempt_claude_raises
            attempt_gemini_raises attempt_no_backend)
  qed
qed

lemma error_response_short: "\<not> 500 < py_len error_response"
  by (simp add: error_response_def py_len_def is_continuation_def)

lemma py_round2_0: "py_round2 0 = 0"
  by (simp add: py_round2_def)

text \<open>
  C2: in an exchange in which the three backends raise (\<open>chat_with_tools\<close> for openai,
  \<open>chat_claude\<close>, \<open>chat_gemini\<close>), whatever the preferred model, \<open>chat_with_fallback\<close>
  returns the fixed message that names the support contact, word for word, with the model
  \<open>none\<close> and no tools, and \<open>send_notification\<close> has built exactly one more notification:
  level \<open>error\<close>, with the text of the exception of the backend tried last (claude when
  gemini is preferred, else gemini).
\<close>

theorem C2_all_backends_fail:
  assumes "fst (chat_with_tools e user_message history w) = Inl e1"
    and "chat_claude e user_message history = Inl e2"
    and "chat_gemini e user_message history = Inl e3"
  shows \<open>fst (chat_with_fallback e user_message history preferred_model w)
           = (''I apologize, but I'm experiencing technical difficulties. Please try again later or contact ERWIQ Airlines support at 1800-ERWIQ-AIR.'',
              ''none'', [])
     \<and> notifications (utils (snd (chat_with_fallback e user_message history preferred_model w)))
         = notifications (utils w)
           @ [\<lparr>n_timestamp = notify_time e, n_title = ''All Models Failed'',
               n_message = Some (str_of_error (if preferred_model = ''gemini'' then e2 else e3)),
               n_level = ''error''\<rparr>]\<close>
  using all_backends_raise [OF assms, of preferred_model]
  by (simp add: chat_with_fallback_def chat_with_tools_utils send_notification_def
        log_interaction_def Let_def error_response_def split: prod.splits)

text \<open>
  The theorem in the environment in which every client is down.
\<close>

theorem C2_all_backends_fail_witness:
  \<open>fst (chat_with_tools env_all_down ''Hi'' [] world_init)
     = Inl (PyErr ClientError ''Connection error.'')
   \<and> chat_claude env_all_down ''Hi'' [] = Inl (PyErr Exception ''Claude client not initialized'')
   \<and> chat_gemini env_all_down ''Hi'' [] = Inl (PyErr ClientError ''429 quota exceeded'')
   \<and> fst (chat_with_fallback env_all_down ''Hi'' [] ''openai'' world_init)
     = (''I apologize, but I'm experiencing technical difficulties. Please try again later or contact ERWIQ Airlines support at 1800-ERWIQ-AIR.'',
        ''none'', [])
   \<and> notifications (utils (snd (chat_with_fallback env_all_down ''Hi'' [] ''openai'' world_init)))
     = [\<lparr>n_timestamp = ''2025-06-15T10:00:01'', n_title = ''All Models Failed'',
         n_message = Some ''429 quota exceeded'', n_level = ''error''\<rparr>]\<close>
proof -
  have o: "fst (chat_with_tools env_all_down ''Hi'' [] world_init)
             = Inl (PyErr ClientError ''Connection error.'')"
    by (simp add: chat_with_tools_def submit_def env_all_down_def Let_def)
  have c: "chat_claude env_all_down ''Hi'' []
             = Inl (PyErr Exception ''Claude client not initialized'')"
    by (simp add: chat_claude_def env_all_down_def)
  have g: "chat_gemini env_all_down ''Hi'' [] = Inl (PyErr ClientError ''429 quota exceeded'')"
    by (simp add: chat_gemini_def env_all_down_def)
  show ?thesis
    using o c g C2_all_backends_fail [OF o c g, of "''openai''"]
    by (simp add: env_all_down_def world_init_def utils_init_def)
qed

text \<open>
  C10, as the code has it: on the path on which the three backends raise, the one record
  that \<open>chat_with_fallback\<close> writes to the audit log has the default model name
  \<open>gpt-4o-mini\<close> of \<open>log_interaction\<close> (which is \<open>OPENAI_MODEL\<close>, the model of the primary
  backend) and not the \<open>none\<close> returned to the caller, and a response time of zero; in
  \<open>model_usage\<close> the count of the key \<open>gpt-4o-mini\<close> goes up by one and no other count
  changes: the counts of \<open>openai\<close> (the key under which the responses of the primary
  backend are counted), \<open>claude\<close>, \<open>gemini\<close> and \<open>none\<close> stay as they were.
\<close>

theorem C10_failure_record:
  assumes "fst (chat_with_tools e user_message history w) = Inl e1"
    and "chat_claude e user_message history = Inl e2"
    and "chat_gemini e user_message history = Inl e3"
  shows \<open>audit_logs (utils (snd (chat_with_fallback e user_message history preferred_model w)))
           = audit_logs (utils w)
             @ [\<lparr>entry_timestamp = log_time e, entry_user_message = user_message,
                 entry_assistant_response =
                   ''I apologize, but I'm experiencing technical difficulties. Please try again later or contact ERWIQ Airlines support at 1800-ERWIQ-AIR.'',
                 entry_tools_used = [],
                 entry_model = ''gpt-4o-mini'', entry_response_time_ms = 0,
                 entry_error = Some (str_of_error (if preferred_model = ''gemini'' then e2 else e3))\<rparr>]
     \<and> OPENAI_MODEL = ''gpt-4o-mini''
     \<and> fst (snd (fst (chat_with_fallback e user_message history preferred_model w))) = ''none''
     \<and> model_usage (analytics_data (utils (snd (chat_with_fallback e user_message history
                                                  preferred_model w))))
         = (model_usage (analytics_data (utils w)))
             (''gpt-4o-mini'' \<mapsto>
                (case model_usage (analytics_data (utils w)) ''gpt-4o-mini'' of
                   None \<Rightarrow> 0 | Some c \<Rightarrow> c) + 1)
     \<and> map (model_usage (analytics_data (utils (snd (chat_with_fallback e user_message history
                                                       preferred_model w)))))
           [''openai'', ''claude'', ''gemini'', ''none'']
         = map (model_usage (analytics_data (utils w)))
             [''openai'', ''claude'', ''gemini'', ''none'']\<close>
  using all_backends_raise [OF assms, of preferred_model]
  by (simp add: chat_with_fallback_def chat_with_tools_utils send_notification_def
        log_interaction_def Let_def error_response_short py_round2_0 default_model_def
        OPENAI_MODEL_def bump_def error_response_def [symmetric] split: prod.splits)

text \<open>
  The theorem in the environment in which every client is down, from the initial state.
\<close>

theorem C10_failure_record_witness:
  \<open>audit_logs (utils (snd (chat_with_fallback env_all_down ''Hi'' [] ''openai'' world_init)))
     = [\<lparr>entry_timestamp = ''2025-06-15T10:00:00'', entry_user_message = ''Hi'',
         entry_assistant_response =
           ''I apologize, but I'm experiencing technical difficulties. Please try again later or contact ERWIQ Airlines support at 1800-ERWIQ-AIR.'',
         entry_tools_used = [],
         entry_model = ''gpt-4o-mini'', entry_response_time_ms = 0,
         entry_error = Some ''429 quota exceeded''\<rparr>]
   \<and> model_usage (analytics_data (utils (snd (chat_with_fallback env_all_down ''Hi'' []
                                                ''openai'' world_init))))
     = [''gpt-4o-mini'' \<mapsto> 1]\<close>
proof -
  have o: "fst (chat_with_tools env_all_down ''Hi'' [] world_init)
             = Inl (PyErr ClientError ''Connection error.'')"
    by (simp add: chat_with_tools_def submit_def env_all_down_def Let_def)
  have c: "chat_claude env_all_down ''Hi'' []
             = Inl (PyErr Exception ''Claude client not initialized'')"
    by (simp add: chat_claude_def env_all_down_def)
  have g: "chat_gemini env_all_down ''Hi'' [] = Inl (PyErr ClientError ''429 quota exceeded'')"
    by (simp add: chat_gemini_def env_all_down_def)
  show ?thesis
    using C10_failure_record [OF o c g, of "''openai''"]
    by (simp add: env_all_down_def world_init_def utils_init_def analytics_init_def)
qed

text \<open>
  An exchange that the primary backend answers, from the initial state.
\<close>

lemma primary_up_chat: "chat_with_tools env_primary_up ''Hi'' [] world_init
              = (Inr (Some ''Hello! How can I help?'', []),
                 world_init\<lparr>chat_requests :=
                   [\<lparr>req_model = OPENAI_MODEL, req_messages = initial_messages ''Hi'' [],
                     req_tools = Some all_tools\<rparr>]\<rparr>)"
    by (simp add: chat_with_tools_def submit_def env_primary_up_def env_all_down_def Let_def
          world_init_def)

lemma primary_up_attempt: "attempt env_primary_up ''openai'' ''Hi'' [] world_init
   = (Some (Inr (''Hello! How can I help?'', [])),
      world_init
              \<lparr>chat_requests :=
                 [\<lparr>req_model = OPENAI_MODEL, req_messages = initial_messages ''Hi'' [],
                   req_tools = Some all_tools\<rparr>],
               utils := snd (log_interaction (log_time env_primary_up) ''Hi''
                               ''Hello! How can I help?'' (Some []) ''openai''
                               (elapsed env_primary_up ''openai'') None (utils world_init))\<rparr>)"
  by (simp add: attempt_def primary_up_chat log_success_def split: prod.splits)

lemma primary_up_fallback: "chat_with_fallback env_primary_up ''Hi'' [] ''openai'' world_init
   = ((''Hello! How can I help?'', ''openai'', []),
      world_init
              \<lparr>chat_requests :=
                 [\<lparr>req_model = OPENAI_MODEL, req_messages = initial_messages ''Hi'' [],
                   req_tools = Some all_tools\<rparr>],
               utils := snd (log_interaction (log_time env_primary_up) ''Hi''
                               ''Hello! How can I help?'' (Some []) ''openai''
                               (elapsed env_primary_up ''openai'') None (utils world_init))\<rparr>)"
  by (simp add: chat_with_fallback_def models_to_try_eq primary_up_attempt)

lemma primary_up_usage: "model_usage (analytics_data (snd (log_interaction (log_time env_primary_up) ''Hi''
                               ''Hello! How can I help?'' (Some []) ''openai''
                               (elapsed env_primary_up ''openai'') None (utils world_init))))
    = [''openai'' \<mapsto> 1]"
  by (simp add: log_interaction_def Let_def bump_def world_init_def utils_init_def
          analytics_init_def)

text \<open>
  C10 as the claim has it fails: a total failure is not counted for the primary backend.
  From the initial state, an exchange that the primary backend answers is counted under
  the key \<open>openai\<close>; an exchange in which every backend raises leaves \<open>openai\<close> without a
  count and is counted under \<open>gpt-4o-mini\<close>, a key that no backend has.
\<close>

theorem C10_counterexample:
  "model_usage (analytics_data (utils (snd (chat_with_fallback env_primary_up ''Hi'' []
                                              ''openai'' world_init))))
     = [''openai'' \<mapsto> 1]
   \<and> model_usage (analytics_data (utils (snd (chat_with_fallback env_all_down ''Hi'' []
                                                ''openai'' world_init)))) ''openai''
     = None
   \<and> model_usage (analytics_data (utils (snd (chat_with_fallback env_all_down ''Hi'' []
                                                ''openai'' world_init)))) ''gpt-4o-mini''
     = Some 1
   \<and> ''gpt-4o-mini'' \<notin> set all_models"
proof -
  have o: "fst (chat_with_tools env_all_down ''Hi'' [] world_init)
             = Inl (PyErr ClientError ''Connection error.'')"
    by (simp add: chat_with_tools_def submit_def env_all_down_def Let_def)
  have c: "chat_claude env_all_down ''Hi'' []
             = Inl (PyErr Exception ''Claude client not initialized'')"
    by (simp add: chat_claude_def env_all_down_def)
  have g: "chat_gemini env_all_down ''Hi'' [] = Inl (PyErr ClientError ''429 quota exceeded'')"
    by (simp add: chat_gemini_def env_all_down_def)
  have "utils (snd (chat_with_tools env_all_down ''Hi'' [] world_init)) = utils_init"
    by (simp add: chat_with_tools_utils world_init_def)
  then have down: "model_usage (analytics_data (utils (snd (chat_with_fallback env_all_down ''Hi'' []
                                                ''openai'' world_init))))
              = [''gpt-4o-mini'' \<mapsto> 1]"
    using all_backends_raise [OF o c g, of "''openai''"]
    by (simp add: chat_with_fallback_def send_notification_def
          log_interaction_def Let_def default_model_def bump_def utils_init_def
          analytics_init_def split: prod.splits)
  have up: "model_usage (analytics_data (utils (snd (chat_with_fallback env_primary_up ''Hi'' []
                                              ''openai'' world_init))))
          = [''openai'' \<mapsto> 1]"
    by (simp add: primary_up_fallback primary_up_usage)
  show ?thesis
    unfolding up down by (simp add: all_models_def)
qed

text \<open>
  C4, as the code has it: in an exchange in which openai is tried and raises
  (\<open>chat_with_tools\<close>) and claude, tried after it, returns (so claude is not the preferred
  model, and gemini, if preferred, has raised before), \<open>chat_with_fallback\<close> returns the
  response of claude with the model \<open>claude\<close> and no tools, and the audit log gains exactly
  one record: the success record of claude. No record is written for the failure of
  openai.
\<close>

theorem C4_secondary_after_primary:
  assumes "fst (chat_with_tools e user_message history w) = Inl e1"
    and "chat_claude e user_message history = Inr response"
    and "preferred_model \<noteq> ''claude''"
    and "preferred_model = ''gemini'' \<longrightarrow> chat_gemini e user_message history = Inl e3"
  shows "fst (chat_with_fallback e user_message history preferred_model w)
           = (response, ''claude'', [])
     \<and> audit_logs (utils (snd (chat_with_fallback e user_message history preferred_model w)))
         = audit_logs (utils w)
           @ [\<lparr>entry_timestamp = log_time e, entry_user_message = user_message,
               entry_assistant_response =
                 (if 500 < py_len response then py_take 500 response @ ''...'' else response),
               entry_tools_used = [], entry_model = ''claude'',
               entry_response_time_ms = py_round2 (elapsed e ''claude'' * 1000),
               entry_error = None\<rparr>]"
proof -
  let ?w1 = "snd (chat_with_tools e user_message history w)"
  let ?w2 = "?w1\<lparr>utils := snd (log_interaction (log_time e) user_message response (Some [])
                ''claude'' (elapsed e ''claude'') None (utils ?w1))\<rparr>"
  have "try_models e user_message history (models_to_try preferred_model) None w
          = (Returned response ''claude'' [], ?w2)"
  proof -
    consider "preferred_model = ''openai''" | "preferred_model = ''gemini''"
      | "preferred_model \<noteq> ''openai''" "preferred_model \<noteq> ''claude''"
        "preferred_model \<noteq> ''gemini''"
      using assms(3) by blast
    then show ?thesis
    proof cases
      case 1
      then show ?thesis
        using assms
        by (simp add: models_to_try_eq all_models_def attempt_openai_raises attempt_claude_returns)
    next
      case 2
      then show ?thesis
        using assms
        by (simp add: models_to_try_eq all_models_def attempt_openai_raises attempt_claude_returns
              attempt_gemini_raises)
    next
      case 3
      then show ?thesis
        using assms
        by (simp add: models_to_try_eq all_models_def attempt_openai_raises attempt_claude_returns
              attempt_no_backend)
    qed
  qed
  then show ?thesis
    by (simp add: chat_with_fallback_def chat_with_tools_utils log_interaction_def Let_def)
qed

text \<open>
  The theorem in the environment in which only the Claude client answers.
\<close>

theorem C4_secondary_after_primary_witness:
  "fst (chat_with_fallback env_primary_down ''Hi'' [] ''openai'' world_init)
     = (''Hello from Claude'', ''claude'', [])
   \<and> audit_logs (utils (snd (chat_with_fallback env_primary_down ''Hi'' [] ''openai'' world_init)))
     = [\<lparr>entry_timestamp = ''2025-06-15T10:00:00'', entry_user_message = ''Hi'',
         entry_assistant_response = ''Hello from Claude'', entry_tools_used = [],
         entry_model = ''claude'', entry_response_time_ms = 250, entry_error = None\<rparr>]"
proof -
  have o: "fst (chat_with_tools env_primary_down ''Hi'' [] world_init)
             = Inl (PyErr ClientError ''Connection error.'')"
    by (simp add: chat_with_tools_def submit_def env_primary_down_def env_all_down_def Let_def)
  have c: "chat_claude env_primary_down ''Hi'' [] = Inr ''Hello from Claude''"
    by (simp add: chat_claude_def env_primary_down_def env_all_down_def)
  show ?thesis
    using C4_secondary_after_primary [OF o c, of "''openai''"]
    by (simp add: env_primary_down_def env_all_down_def world_init_def utils_init_def
          py_len_def is_continuation_def py_round2_def)
qed

text \<open>
  The claim as stated fails: openai raises, claude returns, and the audit log holds one
  record afterwards, none of them with an error and none of them of the model openai.
\<close>

theorem C4_counterexample:
  "fst (chat_with_tools env_primary_down ''Hi'' [] world_init)
     = Inl (PyErr ClientError ''Connection error.'')
   \<and> chat_claude env_primary_down ''Hi'' [] = Inr ''Hello from Claude''
   \<and> fst (chat_with_fallback env_primary_down ''Hi'' [] ''openai'' world_init)
     = (''Hello from Claude'', ''claude'', [])
   \<and> length (audit_logs (utils (snd (chat_with_fallback env_primary_down ''Hi'' [] ''openai''
                                        world_init)))) = 1
   \<and> filter (\<lambda>r. entry_error r \<noteq> None)
        (audit_logs (utils (snd (chat_with_fallback env_primary_down ''Hi'' [] ''openai''
                                   world_init)))) = []
   \<and> filter (\<lambda>r. entry_model r = ''openai'')
        (audit_logs (utils (snd (chat_with_fallback env_primary_down ''Hi'' [] ''openai''
                                   world_init)))) = []"
  by (simp add: chat_with_fallback_def models_to_try_def all_models_def attempt_def
        chat_with_tools_def submit_def chat_claude_def log_success_def log_interaction_def Let_def
        env_primary_down_def env_all_down_def world_init_def utils_init_def)

end
